theory Spec2Isabelle
  imports Complex_Main "HOL-Library.AList"
begin

section \<open>Numbers, errors and Python sequences\<close>

text \<open>
  The program computes with Python and numpy floats.  A finite float is modelled by the real
  number it denotes (rounding is not modelled); the three special values of IEEE arithmetic
  are kept as values of their own, because the program copies whatever the simulator hands
  it, and \<open>observation\<close> casts to 32-bit floats, where a large finite value overflows to an
  infinity.  Signed zeros are not distinguished.
\<close>

datatype fl = Fin real | PInf | NInf | NaN

fun fneg :: "fl \<Rightarrow> fl" where
  "fneg (Fin x) = Fin (- x)"
| "fneg PInf = NInf"
| "fneg NInf = PInf"
| "fneg NaN = NaN"

fun fadd :: "fl \<Rightarrow> fl \<Rightarrow> fl" where
  "fadd (Fin x) (Fin y) = Fin (x + y)"
| "fadd NaN _ = NaN"
| "fadd _ NaN = NaN"
| "fadd PInf NInf = NaN"
| "fadd NInf PInf = NaN"
| "fadd PInf _ = PInf"
| "fadd _ PInf = PInf"
| "fadd NInf _ = NInf"
| "fadd _ NInf = NInf"

definition fsub :: "fl \<Rightarrow> fl \<Rightarrow> fl" where
  "fsub x y = fadd x (fneg y)"

fun fmul :: "fl \<Rightarrow> fl \<Rightarrow> fl" where
  "fmul (Fin x) (Fin y) = Fin (x * y)"
| "fmul NaN _ = NaN"
| "fmul _ NaN = NaN"
| "fmul (Fin x) PInf = (if x = 0 then NaN else if 0 < x then PInf else NInf)"
| "fmul (Fin x) NInf = (if x = 0 then NaN else if 0 < x then NInf else PInf)"
| "fmul PInf (Fin y) = (if y = 0 then NaN else if 0 < y then PInf else NInf)"
| "fmul NInf (Fin y) = (if y = 0 then NaN else if 0 < y then NInf else PInf)"
| "fmul PInf PInf = PInf"
| "fmul PInf NInf = NInf"
| "fmul NInf PInf = NInf"
| "fmul NInf NInf = PInf"

text \<open>\<open>fge x y\<close> is the comparison \<open>x >= y\<close>; it is false as soon as one side is NaN.\<close>

fun fge :: "fl \<Rightarrow> fl \<Rightarrow> bool" where
  "fge (Fin x) (Fin y) = (y \<le> x)"
| "fge NaN _ = False"
| "fge _ NaN = False"
| "fge PInf _ = True"
| "fge _ NInf = True"
| "fge (Fin x) PInf = False"
| "fge NInf (Fin y) = False"
| "fge NInf PInf = False"

fun is_finite :: "fl \<Rightarrow> bool" where
  "is_finite (Fin x) = True"
| "is_finite _ = False"

text \<open>
  The cast \<open>np.float32\<close>: a finite value whose magnitude reaches the midpoint between the
  largest 32-bit float and \<open>2 ^ 128\<close> becomes an infinity; the special values are kept.
\<close>

definition float32_overflow :: real where
  "float32_overflow = (2 - 1 / 2 ^ 24) * 2 ^ 127"

fun float32 :: "fl \<Rightarrow> fl" where
  "float32 (Fin x) =
     (if float32_overflow \<le> x then PInf
      else if x \<le> - float32_overflow then NInf
      else Fin x)"
| "float32 PInf = PInf"
| "float32 NInf = NInf"
| "float32 NaN = NaN"

text \<open>The exceptions the program can raise, and the outcome of a call.\<close>

datatype error =
    IndexError
  | TypeError
  | ValueError
  | AttributeError
  | KeyError
  | FileNotFoundError
  | AdapterError

datatype 'a result = Ok 'a | Raise error

definition rbind :: "'a result \<Rightarrow> ('a \<Rightarrow> 'b result) \<Rightarrow> 'b result" where
  "rbind r f = (case r of Raise e \<Rightarrow> Raise e | Ok x \<Rightarrow> f x)"

text \<open>
  A method of the class reads and updates the attributes of \<open>self\<close>: it is a function from the
  state to an outcome and the state it leaves.  An exception keeps the updates made before
  it was raised.
\<close>

definition ret :: "'a \<Rightarrow> 's \<Rightarrow> 'a result \<times> 's" where
  "ret x s = (Ok x, s)"

definition raise :: "error \<Rightarrow> 's \<Rightarrow> 'a result \<times> 's" where
  "raise e s = (Raise e, s)"

definition then_do ::
  "('s \<Rightarrow> 'a result \<times> 's) \<Rightarrow> ('a \<Rightarrow> 's \<Rightarrow> 'b result \<times> 's) \<Rightarrow> 's \<Rightarrow> 'b result \<times> 's" where
  "then_do m f s = (case m s of (Raise e, s') \<Rightarrow> (Raise e, s') | (Ok x, s') \<Rightarrow> f x s')"

definition reading :: "('s \<Rightarrow> 'a result) \<Rightarrow> 's \<Rightarrow> 'a result \<times> 's" where
  "reading g s = (g s, s)"

text \<open>
  Python indexing: \<open>xs[i]\<close> for \<open>i \<ge> 0\<close>, \<open>xs[-k]\<close> for \<open>k \<ge> 1\<close> (both raise when out of range)
  and the slice \<open>xs[-n:]\<close>, which never raises and returns the whole sequence when it is
  shorter than \<open>n\<close>.
\<close>

definition index :: "'a list \<Rightarrow> nat \<Rightarrow> 'a result" where
  "index xs i = (if i < length xs then Ok (xs ! i) else Raise IndexError)"

definition index_neg :: "'a list \<Rightarrow> nat \<Rightarrow> 'a result" where
  "index_neg xs k = (if k \<le> length xs then Ok (xs ! (length xs - k)) else Raise IndexError)"

definition lastn :: "nat \<Rightarrow> 'a list \<Rightarrow> 'a list" where
  "lastn n xs = drop (length xs - n) xs"

text \<open>\<open>np.linspace(start, stop, num)\<close> for \<open>num > 1\<close>.\<close>

definition linspace :: "real \<Rightarrow> real \<Rightarrow> nat \<Rightarrow> fl list" where
  "linspace start stop num =
     map (\<lambda>i. Fin (start + real i * ((stop - start) / real (num - 1)))) [0..<num]"

section \<open>Data model\<close>

text \<open>One row of the historical spreadsheet \<open>mgh_data\<close>, with the columns the program reads.\<close>

record row =
  col_time :: fl
  col_global_out :: fl
  col_global_in :: fl
  col_temp_in :: fl
  col_temp_out :: fl
  col_rh_in :: fl
  col_rh_out :: fl
  col_co2_in :: fl
  col_co2_out :: fl
  col_toplights :: fl
  col_ventilation :: fl
  col_heater :: fl

text \<open>A \<open>.mat\<close> file or a dict of arrays: variable names with their flattened arrays.\<close>

type_synonym mat = "(string \<times> fl list) list"

text \<open>
  The history buffers.  The program creates the attributes of one source together on first
  use and tests \<open>hasattr\<close> on one of them, so each source is one optional record: \<open>None\<close> when
  the attributes do not exist yet.
\<close>

record excel_buffers =
  time_excel :: "fl list"
  global_out_excel :: "fl list"
  global_in_excel :: "fl list"
  temp_in_excel :: "fl list"
  temp_out_excel :: "fl list"
  rh_in_excel :: "fl list"
  rh_out_excel :: "fl list"
  co2_in_excel :: "fl list"
  co2_out_excel :: "fl list"
  toplights :: "fl list"
  ventilation :: "fl list"
  heater :: "fl list"

record nn_buffers =
  par_in_predicted_nn :: "fl list"
  temp_in_predicted_nn :: "fl list"
  rh_in_predicted_nn :: "fl list"
  co2_in_predicted_nn :: "fl list"

record gl_buffers =
  time_gl :: "fl list"
  co2_in_predicted_gl :: "fl list"
  temp_in_predicted_gl :: "fl list"
  rh_in_predicted_gl :: "fl list"
  PAR_in_predicted_gl :: "fl list"
  fruit_leaf_predicted_gl :: "fl list"
  fruit_stem_predicted_gl :: "fl list"
  fruit_dw_predicted_gl :: "fl list"
  fruit_cbuf_predicted_gl :: "fl list"
  fruit_tcansum_predicted_gl :: "fl list"

text \<open>
  What the program does to the outside world, in the order it does it: files written and
  removed, and calls of the predictor, the simulator, the telemetry publisher and the
  reporting functions.
\<close>

datatype event =
    SaveMat string mat
  | Remove string
  | Predict string
  | RunMatlab "string option" "string option" "string option"
  | GetOutdoor
  | Publish "fl list" "fl list" "fl list" "fl list"
  | Export string
  | Plot string

text \<open>
  The settings read from \<open>env_config\<close> and the data loaded once by \<open>__init__\<close>; none of them
  changes afterwards.  \<open>script_exists\<close> is the outcome of \<open>os.path.isfile\<close> on the simulator
  script.  \<open>first_day\<close>, \<open>season_length_gl0\<close> and \<open>season_length_nn0\<close> are the configured
  starting values of the attributes that \<open>step\<close> and \<open>reset\<close> update; the row cursor is a
  natural number (the default is 0 and the program only adds 4 to it).
\<close>

record config =
  flag_run :: bool
  online_measurements :: bool
  flag_action_from_drl :: bool
  max_steps :: int
  first_day :: fl
  season_length_gl0 :: fl
  season_length_nn0 :: nat
  script_exists :: bool
  mgh_data :: "row list"

text \<open>The attributes of the environment that change, the files on disk and the event log.\<close>

record state =
  current_step :: int
  season_length_gl :: fl
  first_day_gl :: fl
  season_length_nn :: nat
  ventilation_list :: "fl list"
  toplights_list :: "fl list"
  heater_list :: "fl list"
  rewards_list :: "fl list"
  step_data :: "row list"
  excel :: "excel_buffers option"
  nn :: "nn_buffers option"
  gl :: "gl_buffers option"
  files :: "(string \<times> mat) list"
  trace :: "event list"

text \<open>
  The collaborators that are not part of the source, taken as parameters: the trained
  predictor with its scaler (\<open>nn_model target rows\<close>), the simulator run by the MATLAB engine
  (given its arguments and the files present, it yields the contents of \<open>drl-env.mat\<close>), the
  unit conversions and the outdoor measurements of \<open>ServiceFunctions\<close>, and the metrics of
  \<open>sklearn\<close>.  \<open>get_outdoor_measurements\<close> is taken to store its readings in \<open>outdoor.mat\<close>,
  the file the program hands to the simulator right after calling it; the readings may
  depend on what has happened so far.
\<close>

record world =
  nn_model :: "string \<Rightarrow> row list \<Rightarrow> fl list result"
  DrlGlEnvironment ::
    "fl \<Rightarrow> fl \<Rightarrow> string \<Rightarrow> string option \<Rightarrow> string option \<Rightarrow> string option
      \<Rightarrow> (string \<times> mat) list \<Rightarrow> mat result"
  co2ppm_to_dens :: "fl list \<Rightarrow> fl list \<Rightarrow> fl list"
  rh_to_vapor_density :: "fl list \<Rightarrow> fl list \<Rightarrow> fl list"
  vapor_density_to_pressure :: "fl list \<Rightarrow> fl list \<Rightarrow> fl list"
  outdoor_measurements :: "event list \<Rightarrow> mat"
  calculate_metrics :: "fl list \<Rightarrow> fl list \<Rightarrow> (fl \<times> fl) result"

definition log :: "event \<Rightarrow> state \<Rightarrow> state" where
  "log e s = s\<lparr>trace := trace s @ [e]\<rparr>"

text \<open>\<open>sio.savemat\<close>, \<open>sio.loadmat\<close> and \<open>os.remove\<close> on the files of the model.\<close>

definition savemat :: "string \<Rightarrow> mat \<Rightarrow> state \<Rightarrow> unit result \<times> state" where
  "savemat name m s =
     (Ok (), log (SaveMat name m) (s\<lparr>files := AList.update name m (files s)\<rparr>))"

definition loadmat :: "string \<Rightarrow> state \<Rightarrow> mat result \<times> state" where
  "loadmat name s =
     (case map_of (files s) name of
        None \<Rightarrow> (Raise FileNotFoundError, s)
      | Some m \<Rightarrow> (Ok m, s))"

definition os_remove :: "string \<Rightarrow> state \<Rightarrow> unit result \<times> state" where
  "os_remove name s =
     (case map_of (files s) name of
        None \<Rightarrow> (Raise FileNotFoundError, s)
      | Some m \<Rightarrow> (Ok (), log (Remove name) (s\<lparr>files := AList.delete name (files s)\<rparr>)))"

text \<open>\<open>data[key]\<close> on a loaded file.\<close>

definition getitem :: "mat \<Rightarrow> string \<Rightarrow> fl list result" where
  "getitem data key = (case map_of data key of None \<Rightarrow> Raise KeyError | Some xs \<Rightarrow> Ok xs)"

section \<open>Observation, reward and reset\<close>

text \<open>
  \<open>observation\<close>: the last element of each of the nine simulator buffers, cast to 32-bit
  floats.  A missing attribute raises \<open>AttributeError\<close>, an empty buffer \<open>IndexError\<close>.
\<close>

definition observation :: "state \<Rightarrow> fl list result" where
  "observation s =
     (case gl s of
        None \<Rightarrow> Raise AttributeError
      | Some g \<Rightarrow>
          rbind (index_neg (co2_in_predicted_gl g) 1) (\<lambda>co2.
          rbind (index_neg (temp_in_predicted_gl g) 1) (\<lambda>temp.
          rbind (index_neg (rh_in_predicted_gl g) 1) (\<lambda>rh.
          rbind (index_neg (PAR_in_predicted_gl g) 1) (\<lambda>par.
          rbind (index_neg (fruit_leaf_predicted_gl g) 1) (\<lambda>leaf.
          rbind (index_neg (fruit_stem_predicted_gl g) 1) (\<lambda>stem.
          rbind (index_neg (fruit_dw_predicted_gl g) 1) (\<lambda>dw.
          rbind (index_neg (fruit_cbuf_predicted_gl g) 1) (\<lambda>cbuf.
          rbind (index_neg (fruit_tcansum_predicted_gl g) 1) (\<lambda>tcansum.
          Ok (map float32 [co2, temp, rh, par, leaf, stem, dw, cbuf, tcansum])))))))))))"

definition w_r_y1 :: fl where "w_r_y1 = Fin 1"
definition w_r_a1 :: fl where "w_r_a1 = Fin (5 / 1000)"
definition w_r_a2 :: fl where "w_r_a2 = Fin (15 / 1000)"
definition w_r_a3 :: fl where "w_r_a3 = Fin (1 / 1000)"

definition get_reward :: "state \<Rightarrow> fl \<Rightarrow> fl \<Rightarrow> fl \<Rightarrow> fl result" where
  "get_reward s v t h =
     (if current_step s = 0 then Ok (Fin 0)
      else
        (case gl s of
           None \<Rightarrow> Raise AttributeError
         | Some g \<Rightarrow>
             rbind (index_neg (fruit_dw_predicted_gl g) 1) (\<lambda>dw1.
             rbind (index_neg (fruit_dw_predicted_gl g) 2) (\<lambda>dw2.
             Ok (fsub (fmul w_r_y1 (fsub dw1 dw2))
                      (fadd (fadd (fmul w_r_a1 v) (fmul w_r_a2 t)) (fmul w_r_a3 h)))))))"

text \<open>\<open>reset\<close> returns the observation and the empty info dict.\<close>

type_synonym info = "(string \<times> fl) list"

definition reset :: "state \<Rightarrow> (fl list \<times> info) result \<times> state" where
  "reset s0 =
     then_do (\<lambda>s. ret () (s\<lparr>current_step := 0\<rparr>)) (\<lambda>_.
     then_do (\<lambda>s. ret () (s\<lparr>season_length_nn := season_length_nn s + 4\<rparr>)) (\<lambda>_.
     then_do (reading observation) (\<lambda>obs.
     ret (obs, [])))) s0"

section \<open>Termination, export and cleanup\<close>

text \<open>
  \<open>evaluate_predictions\<close> compares the actual measurements with the predictor's and with the
  simulator's values: four pairs for each, in the order PAR, temperature, humidity, CO2.
\<close>

definition evaluate_predictions ::
  "world \<Rightarrow> state \<Rightarrow> ((fl \<times> fl) list \<times> (fl \<times> fl) list) result" where
  "evaluate_predictions w s =
     (case excel s of None \<Rightarrow> Raise AttributeError | Some e \<Rightarrow>
     (case nn s of None \<Rightarrow> Raise AttributeError | Some n \<Rightarrow>
     (case gl s of None \<Rightarrow> Raise AttributeError | Some g \<Rightarrow>
        rbind (calculate_metrics w (global_in_excel e) (par_in_predicted_nn n)) (\<lambda>par_nn.
        rbind (calculate_metrics w (temp_in_excel e) (temp_in_predicted_nn n)) (\<lambda>temp_nn.
        rbind (calculate_metrics w (rh_in_excel e) (rh_in_predicted_nn n)) (\<lambda>rh_nn.
        rbind (calculate_metrics w (co2_in_excel e) (co2_in_predicted_nn n)) (\<lambda>co2_nn.
        rbind (calculate_metrics w (global_in_excel e) (PAR_in_predicted_gl g)) (\<lambda>par_gl.
        rbind (calculate_metrics w (temp_in_excel e) (temp_in_predicted_gl g)) (\<lambda>temp_gl.
        rbind (calculate_metrics w (rh_in_excel e) (rh_in_predicted_gl g)) (\<lambda>rh_gl.
        rbind (calculate_metrics w (co2_in_excel e) (co2_in_predicted_gl g)) (\<lambda>co2_gl.
        Ok ([par_nn, temp_nn, rh_nn, co2_nn], [par_gl, temp_gl, rh_gl, co2_gl]))))))))))))"

text \<open>
  \<open>print_and_save_all_data\<close>: the lengths it prints need the three groups of buffers (the
  same ones \<open>evaluate_predictions\<close> reads, in the same order); then the spreadsheet export
  and the two charts, which are calls of the reporting collaborator.
\<close>

definition print_and_save_all_data :: "world \<Rightarrow> string \<Rightarrow> state \<Rightarrow> unit result \<times> state" where
  "print_and_save_all_data w file_name =
     then_do (reading (evaluate_predictions w)) (\<lambda>_.
     then_do (\<lambda>s. ret () (log (Export file_name) s)) (\<lambda>_.
     then_do (\<lambda>s. ret () (log (Plot ''output/output_all_data.png'') s)) (\<lambda>_.
     (\<lambda>s. ret () (log (Plot ''output/output_rewards_action.png'') s)))))"

definition delete_files :: "config \<Rightarrow> state \<Rightarrow> unit result \<times> state" where
  "delete_files cfg =
     then_do (os_remove ''controls.mat'') (\<lambda>_.
     then_do (os_remove ''drl-env.mat'') (\<lambda>_.
     then_do (os_remove ''indoor.mat'') (\<lambda>_.
     then_do (os_remove ''fruit.mat'') (\<lambda>_.
     (if online_measurements cfg then os_remove ''outdoor.mat'' else ret ())))))"

text \<open>The method \<open>done\<close>.\<close>

definition done_episode :: "config \<Rightarrow> world \<Rightarrow> state \<Rightarrow> bool result \<times> state" where
  "done_episode cfg w s =
     (if flag_run cfg then
        (if max_steps cfg \<le> current_step s then
           then_do
             (if online_measurements cfg
              then print_and_save_all_data w ''output/output_simulated_data_online.xlsx''
              else print_and_save_all_data w ''output/output_simulated_data_offline.xlsx'') (\<lambda>_.
           then_do (delete_files cfg) (\<lambda>_.
           ret True)) s
         else ret False s)
      else
        (if max_steps cfg \<le> current_step s then ret True s
         else ret False s))"

section \<open>The historical dataset and the predictor\<close>

text \<open>
  Both \<open>load_excel_data\<close> and \<open>step\<close> turn an agent's action into three binary decisions with
  the same three lines: component \<open>i\<close> becomes 1 if \<open>_action_drl[i] >= 0.5\<close> and 0 otherwise.
  The action is a Python sequence of floats, or \<open>None\<close>.
\<close>

definition discretise :: "fl \<Rightarrow> fl" where
  "discretise x = (if fge x (Fin (1 / 2)) then Fin 1 else Fin 0)"

definition convert_actions :: "fl list \<Rightarrow> (fl \<times> fl \<times> fl) result" where
  "convert_actions a =
     rbind (index a 0) (\<lambda>a0.
     rbind (index a 1) (\<lambda>a1.
     rbind (index a 2) (\<lambda>a2.
     Ok (discretise a0, discretise a1, discretise a2))))"

text \<open>
  \<open>frame[column] = values\<close> on a pandas frame: the values replace the column when there is
  one value for each row; a frame without rows takes its rows from the values, the other
  columns being NaN; any other length raises \<open>ValueError\<close>.
\<close>

definition nan_row :: row where
  "nan_row = \<lparr>col_time = NaN, col_global_out = NaN, col_global_in = NaN, col_temp_in = NaN,
     col_temp_out = NaN, col_rh_in = NaN, col_rh_out = NaN, col_co2_in = NaN,
     col_co2_out = NaN, col_toplights = NaN, col_ventilation = NaN, col_heater = NaN\<rparr>"

definition assign_column :: "(fl \<Rightarrow> row \<Rightarrow> row) \<Rightarrow> fl list \<Rightarrow> row list \<Rightarrow> row list result" where
  "assign_column upd vals rows =
     (if rows = [] \<and> vals \<noteq> [] then Ok (map (\<lambda>v. upd v nan_row) vals)
      else if length vals = length rows then Ok (map (\<lambda>(v, r). upd v r) (zip vals rows))
      else Raise ValueError)"

definition set_step_data_column ::
  "(fl \<Rightarrow> row \<Rightarrow> row) \<Rightarrow> fl list \<Rightarrow> state \<Rightarrow> unit result \<times> state" where
  "set_step_data_column upd vals s =
     (case assign_column upd vals (step_data s) of
        Raise e \<Rightarrow> (Raise e, s)
      | Ok rows \<Rightarrow> (Ok (), s\<lparr>step_data := rows\<rparr>))"

text \<open>First use creates the attributes, later uses concatenate.\<close>

definition concat_excel :: "excel_buffers \<Rightarrow> excel_buffers \<Rightarrow> excel_buffers" where
  "concat_excel e n =
     \<lparr>time_excel = time_excel e @ time_excel n,
      global_out_excel = global_out_excel e @ global_out_excel n,
      global_in_excel = global_in_excel e @ global_in_excel n,
      temp_in_excel = temp_in_excel e @ temp_in_excel n,
      temp_out_excel = temp_out_excel e @ temp_out_excel n,
      rh_in_excel = rh_in_excel e @ rh_in_excel n,
      rh_out_excel = rh_out_excel e @ rh_out_excel n,
      co2_in_excel = co2_in_excel e @ co2_in_excel n,
      co2_out_excel = co2_out_excel e @ co2_out_excel n,
      toplights = toplights e @ toplights n,
      ventilation = ventilation e @ ventilation n,
      heater = heater e @ heater n\<rparr>"

definition append_excel :: "excel_buffers \<Rightarrow> state \<Rightarrow> state" where
  "append_excel new s =
     s\<lparr>excel := Some (case excel s of None \<Rightarrow> new | Some e \<Rightarrow> concat_excel e new)\<rparr>"

definition concat_nn :: "nn_buffers \<Rightarrow> nn_buffers \<Rightarrow> nn_buffers" where
  "concat_nn p n =
     \<lparr>par_in_predicted_nn = par_in_predicted_nn p @ par_in_predicted_nn n,
      temp_in_predicted_nn = temp_in_predicted_nn p @ temp_in_predicted_nn n,
      rh_in_predicted_nn = rh_in_predicted_nn p @ rh_in_predicted_nn n,
      co2_in_predicted_nn = co2_in_predicted_nn p @ co2_in_predicted_nn n\<rparr>"

definition append_nn :: "nn_buffers \<Rightarrow> state \<Rightarrow> state" where
  "append_nn new s =
     s\<lparr>nn := Some (case nn s of None \<Rightarrow> new | Some p \<Rightarrow> concat_nn p new)\<rparr>"

definition concat_gl :: "gl_buffers \<Rightarrow> gl_buffers \<Rightarrow> gl_buffers" where
  "concat_gl g n =
     \<lparr>time_gl = time_gl g @ time_gl n,
      co2_in_predicted_gl = co2_in_predicted_gl g @ co2_in_predicted_gl n,
      temp_in_predicted_gl = temp_in_predicted_gl g @ temp_in_predicted_gl n,
      rh_in_predicted_gl = rh_in_predicted_gl g @ rh_in_predicted_gl n,
      PAR_in_predicted_gl = PAR_in_predicted_gl g @ PAR_in_predicted_gl n,
      fruit_leaf_predicted_gl = fruit_leaf_predicted_gl g @ fruit_leaf_predicted_gl n,
      fruit_stem_predicted_gl = fruit_stem_predicted_gl g @ fruit_stem_predicted_gl n,
      fruit_dw_predicted_gl = fruit_dw_predicted_gl g @ fruit_dw_predicted_gl n,
      fruit_cbuf_predicted_gl = fruit_cbuf_predicted_gl g @ fruit_cbuf_predicted_gl n,
      fruit_tcansum_predicted_gl = fruit_tcansum_predicted_gl g @ fruit_tcansum_predicted_gl n\<rparr>"

definition append_gl :: "gl_buffers \<Rightarrow> state \<Rightarrow> state" where
  "append_gl new s =
     s\<lparr>gl := Some (case gl s of None \<Rightarrow> new | Some g \<Rightarrow> concat_gl g new)\<rparr>"

text \<open>
  \<open>load_excel_data\<close>: the window of four rows at the cursor (fewer at the end of the
  dataset); the nine measurement columns are extracted before the control columns are
  overwritten by an agent's action.
\<close>

definition load_excel_data :: "config \<Rightarrow> fl list option \<Rightarrow> state \<Rightarrow> unit result \<times> state" where
  "load_excel_data cfg action =
     then_do (\<lambda>s. ret () (s\<lparr>step_data := take 4 (drop (season_length_nn s) (mgh_data cfg))\<rparr>)) (\<lambda>_.
     then_do (reading (\<lambda>s. Ok (step_data s))) (\<lambda>extracted.
     then_do
       (case (if flag_action_from_drl cfg then action else None) of
          Some a \<Rightarrow>
            then_do (reading (\<lambda>_. convert_actions a)) (\<lambda>(v, t, h).
            then_do (set_step_data_column (\<lambda>x r. r\<lparr>col_toplights := x\<rparr>) (replicate 4 t)) (\<lambda>_.
            then_do (set_step_data_column (\<lambda>x r. r\<lparr>col_ventilation := x\<rparr>) (replicate 4 v)) (\<lambda>_.
            then_do (set_step_data_column (\<lambda>x r. r\<lparr>col_heater := x\<rparr>) (replicate 4 h)) (\<lambda>_.
            reading (\<lambda>s. Ok (map col_toplights (step_data s), map col_ventilation (step_data s),
                               map col_heater (step_data s)))))))
        | None \<Rightarrow>
            reading (\<lambda>s. Ok (map col_toplights (step_data s), map col_ventilation (step_data s),
                               map col_heater (step_data s))))
       (\<lambda>(new_toplights, new_ventilation, new_heater).
     (\<lambda>s. ret () (append_excel
       \<lparr>time_excel = map col_time extracted,
        global_out_excel = map col_global_out extracted,
        global_in_excel = map col_global_in extracted,
        temp_in_excel = map col_temp_in extracted,
        temp_out_excel = map col_temp_out extracted,
        rh_in_excel = map col_rh_in extracted,
        rh_out_excel = map col_rh_out extracted,
        co2_in_excel = map col_co2_in extracted,
        co2_out_excel = map col_co2_out extracted,
        toplights = new_toplights,
        ventilation = new_ventilation,
        heater = new_heater\<rparr> s)))))"

text \<open>
  \<open>predict_inside_measurements\<close>: the rows of the model always carry the feature columns, so
  what is left is the call of the trained model.
\<close>

definition predict_inside_measurements ::
  "world \<Rightarrow> string \<Rightarrow> row list \<Rightarrow> state \<Rightarrow> fl list result \<times> state" where
  "predict_inside_measurements w target_variable data_input s =
     (nn_model w target_variable data_input, log (Predict target_variable) s)"

definition predicted_inside_measurements_nn ::
  "config \<Rightarrow> world \<Rightarrow> fl list option \<Rightarrow> state \<Rightarrow> unit result \<times> state" where
  "predicted_inside_measurements_nn cfg w action =
     then_do (load_excel_data cfg action) (\<lambda>_.
     then_do (\<lambda>s. predict_inside_measurements w ''global in'' (step_data s) s) (\<lambda>new_par.
     then_do (\<lambda>s. predict_inside_measurements w ''temp in'' (step_data s) s) (\<lambda>new_temp.
     then_do (\<lambda>s. predict_inside_measurements w ''rh in'' (step_data s) s) (\<lambda>new_rh.
     then_do (\<lambda>s. predict_inside_measurements w ''co2 in'' (step_data s) s) (\<lambda>new_co2.
     (\<lambda>s. ret () (append_nn
       \<lparr>par_in_predicted_nn = new_par,
        temp_in_predicted_nn = new_temp,
        rh_in_predicted_nn = new_rh,
        co2_in_predicted_nn = new_co2\<rparr> s)))))))"

section \<open>The simulator\<close>

definition read_drl_env :: "mat \<Rightarrow> gl_buffers result" where
  "read_drl_env data =
     rbind (getitem data ''time'') (\<lambda>new_time.
     rbind (getitem data ''co2_in'') (\<lambda>new_co2.
     rbind (getitem data ''temp_in'') (\<lambda>new_temp.
     rbind (getitem data ''rh_in'') (\<lambda>new_rh.
     rbind (getitem data ''PAR_in'') (\<lambda>new_par.
     rbind (getitem data ''fruit_leaf'') (\<lambda>new_leaf.
     rbind (getitem data ''fruit_stem'') (\<lambda>new_stem.
     rbind (getitem data ''fruit_dw'') (\<lambda>new_dw.
     rbind (getitem data ''fruit_cbuf'') (\<lambda>new_cbuf.
     rbind (getitem data ''fruit_tcansum'') (\<lambda>new_tcansum.
     Ok \<lparr>time_gl = lastn 4 new_time,
         co2_in_predicted_gl = lastn 4 new_co2,
         temp_in_predicted_gl = lastn 4 new_temp,
         rh_in_predicted_gl = lastn 4 new_rh,
         PAR_in_predicted_gl = lastn 4 new_par,
         fruit_leaf_predicted_gl = lastn 4 new_leaf,
         fruit_stem_predicted_gl = lastn 4 new_stem,
         fruit_dw_predicted_gl = lastn 4 new_dw,
         fruit_cbuf_predicted_gl = lastn 4 new_cbuf,
         fruit_tcansum_predicted_gl = lastn 4 new_tcansum\<rparr>))))))))))"

definition predicted_inside_measurements_gl :: "state \<Rightarrow> unit result \<times> state" where
  "predicted_inside_measurements_gl =
     then_do (loadmat ''drl-env.mat'') (\<lambda>data.
     then_do (reading (\<lambda>_. read_drl_env data)) (\<lambda>new.
     (\<lambda>s. ret () (append_gl new s))))"

definition init_controls :: "state \<Rightarrow> unit result \<times> state" where
  "init_controls =
     then_do (reading (\<lambda>_. Ok
        [(''time'', linspace 300 1200 4),
         (''ventilation'', replicate 4 (Fin 0)),
         (''toplights'', replicate 4 (Fin 0)),
         (''heater'', replicate 4 (Fin 0))])) (\<lambda>controls.
     then_do (\<lambda>s. ret () (s\<lparr>ventilation_list := ventilation_list s @ lastn 4 (replicate 4 (Fin 0))\<rparr>)) (\<lambda>_.
     then_do (\<lambda>s. ret () (s\<lparr>toplights_list := toplights_list s @ lastn 4 (replicate 4 (Fin 0))\<rparr>)) (\<lambda>_.
     then_do (\<lambda>s. ret () (s\<lparr>heater_list := heater_list s @ lastn 4 (replicate 4 (Fin 0))\<rparr>)) (\<lambda>_.
     savemat ''controls.mat'' controls))))"

definition run_matlab_script ::
  "world \<Rightarrow> string option \<Rightarrow> string option \<Rightarrow> string option \<Rightarrow> state \<Rightarrow> unit result \<times> state" where
  "run_matlab_script w outdoor_file indoor_file fruit_file s =
     (case DrlGlEnvironment w (season_length_gl s) (first_day_gl s) ''controls.mat''
             outdoor_file indoor_file fruit_file (files s) of
        Raise e \<Rightarrow> (Raise e, log (RunMatlab outdoor_file indoor_file fruit_file) s)
      | Ok m \<Rightarrow>
          (Ok (), log (RunMatlab outdoor_file indoor_file fruit_file)
                    (s\<lparr>files := AList.update ''drl-env.mat'' m (files s)\<rparr>)))"

definition get_outdoor_measurements :: "world \<Rightarrow> state \<Rightarrow> unit result \<times> state" where
  "get_outdoor_measurements w s =
     (Ok (), log GetOutdoor
        (s\<lparr>files := AList.update ''outdoor.mat'' (outdoor_measurements w (trace s)) (files s)\<rparr>))"

section \<open>One epoch\<close>

text \<open>
  The control vector of an epoch, as \<open>step\<close> builds it: four time stamps, and four values each
  for ventilation, top lights and heater.  With an agent, the action is discretised and
  repeated; without, the last four control values loaded from the dataset are taken.
\<close>

definition control_vector ::
  "config \<Rightarrow> fl list option \<Rightarrow> state \<Rightarrow> (fl list \<times> fl list \<times> fl list \<times> fl list) result" where
  "control_vector cfg action s =
     (if flag_action_from_drl cfg then
        (case action of
           None \<Rightarrow> Raise TypeError
         | Some a \<Rightarrow>
             rbind (convert_actions a) (\<lambda>(v, t, h).
             Ok (linspace 300 1200 4, replicate 4 v, replicate 4 t, replicate 4 h)))
      else
        (case excel s of
           None \<Rightarrow> Raise AttributeError
         | Some e \<Rightarrow>
             Ok (linspace 300 1200 4, lastn 4 (ventilation e), lastn 4 (toplights e),
                 lastn 4 (heater e))))"

text \<open>
  The state handed to the simulator: the last three sub-steps of the indoor climate, with
  humidity as vapour pressure and CO2 as density, and the last crop state.
\<close>

definition drl_indoor :: "world \<Rightarrow> state \<Rightarrow> mat result" where
  "drl_indoor w s =
     (case gl s of
        None \<Rightarrow> Raise AttributeError
      | Some g \<Rightarrow>
          (let co2_density_gl =
                 co2ppm_to_dens w (lastn 4 (temp_in_predicted_gl g)) (lastn 4 (co2_in_predicted_gl g));
               vapor_density_gl =
                 rh_to_vapor_density w (lastn 4 (temp_in_predicted_gl g)) (lastn 4 (rh_in_predicted_gl g));
               vapor_pressure_gl =
                 vapor_density_to_pressure w (lastn 4 (temp_in_predicted_gl g)) vapor_density_gl
           in Ok [(''time'', lastn 3 (time_gl g)),
                  (''temp_in'', lastn 3 (temp_in_predicted_gl g)),
                  (''rh_in'', lastn 3 vapor_pressure_gl),
                  (''co2_in'', lastn 3 co2_density_gl)]))"

definition fruit_growth :: "state \<Rightarrow> mat result" where
  "fruit_growth s =
     (case gl s of
        None \<Rightarrow> Raise AttributeError
      | Some g \<Rightarrow>
          Ok [(''time'', lastn 1 (time_gl g)),
              (''fruit_leaf'', lastn 1 (fruit_leaf_predicted_gl g)),
              (''fruit_stem'', lastn 1 (fruit_stem_predicted_gl g)),
              (''fruit_dw'', lastn 1 (fruit_dw_predicted_gl g)),
              (''fruit_cbuf'', lastn 1 (fruit_cbuf_predicted_gl g)),
              (''fruit_tcansum'', lastn 1 (fruit_tcansum_predicted_gl g))])"

text \<open>
  \<open>step\<close> returns the observation, the reward, the terminated flag, the truncated flag
  (always false) and the empty info dict.
\<close>

definition step ::
  "config \<Rightarrow> world \<Rightarrow> fl list option \<Rightarrow> state
     \<Rightarrow> (fl list \<times> fl \<times> bool \<times> bool \<times> info) result \<times> state" where
  "step cfg w action =
     then_do (\<lambda>s. ret () (s\<lparr>current_step := current_step s + 1\<rparr>)) (\<lambda>_.
     then_do (predicted_inside_measurements_nn cfg w action) (\<lambda>_.
     then_do (reading (control_vector cfg action)) (\<lambda>(time_steps, ventilation, toplights, heater).
     then_do (\<lambda>s. ret () (s\<lparr>ventilation_list := ventilation_list s @ lastn 4 ventilation\<rparr>)) (\<lambda>_.
     then_do (\<lambda>s. ret () (s\<lparr>toplights_list := toplights_list s @ lastn 4 toplights\<rparr>)) (\<lambda>_.
     then_do (\<lambda>s. ret () (s\<lparr>heater_list := heater_list s @ lastn 4 heater\<rparr>)) (\<lambda>_.
     then_do (if online_measurements cfg
              then (\<lambda>s. ret () (log (Publish time_steps ventilation toplights heater) s))
              else ret ()) (\<lambda>_.
     then_do (savemat ''controls.mat''
                [(''time'', time_steps), (''ventilation'', ventilation),
                 (''toplights'', toplights), (''heater'', heater)]) (\<lambda>_.
     then_do (\<lambda>s. ret () (s\<lparr>season_length_gl := Fin (1 / 72)\<rparr>)) (\<lambda>_.
     then_do (\<lambda>s. ret () (s\<lparr>first_day_gl := fadd (first_day_gl s) (Fin (1 / 72))\<rparr>)) (\<lambda>_.
     then_do (\<lambda>s. ret () (s\<lparr>season_length_nn := season_length_nn s + 4\<rparr>)) (\<lambda>_.
     then_do (reading (drl_indoor w)) (\<lambda>indoor.
     then_do (savemat ''indoor.mat'' indoor) (\<lambda>_.
     then_do (reading fruit_growth) (\<lambda>fruit.
     then_do (savemat ''fruit.mat'' fruit) (\<lambda>_.
     then_do (if online_measurements cfg then get_outdoor_measurements w else ret ()) (\<lambda>_.
     then_do (if online_measurements cfg
              then run_matlab_script w (Some ''outdoor.mat'') (Some ''indoor.mat'') (Some ''fruit.mat'')
              else run_matlab_script w None (Some ''indoor.mat'') (Some ''fruit.mat'')) (\<lambda>_.
     then_do predicted_inside_measurements_gl (\<lambda>_.
     then_do (reading (\<lambda>s.
                rbind (index ventilation 0) (\<lambda>v0.
                rbind (index toplights 0) (\<lambda>t0.
                rbind (index heater 0) (\<lambda>h0.
                get_reward s v0 t0 h0))))) (\<lambda>reward.
     then_do (\<lambda>s. ret () (s\<lparr>rewards_list := rewards_list s @ replicate 4 reward\<rparr>)) (\<lambda>_.
     then_do (reading observation) (\<lambda>obs.
     then_do (done_episode cfg w) (\<lambda>terminated.
     ret (obs, reward, terminated, False, [])))))))))))))))))))))))"

section \<open>Construction\<close>

text \<open>
  \<open>__init__\<close> is \<open>fresh\<close>, the attributes it sets first, followed by \<open>start_up\<close>, the calls it
  makes.  The state it starts from: empty control lists, a reward list holding the first
  reward four times, no history buffer yet, the files found on disk and nothing done.  The
  epoch counter does not exist before \<open>reset\<close> sets it at the end of \<open>__init__\<close>, and nothing
  reads it before; it is 0 here.
\<close>

definition fresh :: "config \<Rightarrow> (string \<times> mat) list \<Rightarrow> state" where
  "fresh cfg disk =
     \<lparr>current_step = 0,
      season_length_gl = season_length_gl0 cfg,
      first_day_gl = first_day cfg,
      season_length_nn = season_length_nn0 cfg,
      ventilation_list = [],
      toplights_list = [],
      heater_list = [],
      rewards_list = replicate 4 (Fin 0),
      step_data = [],
      excel = None,
      nn = None,
      gl = None,
      files = disk,
      trace = []\<rparr>"

definition start_up :: "config \<Rightarrow> world \<Rightarrow> state \<Rightarrow> unit result \<times> state" where
  "start_up cfg w =
     then_do
       (if script_exists cfg then
          then_do init_controls (\<lambda>_.
          (if online_measurements cfg then
             then_do (get_outdoor_measurements w) (\<lambda>_.
             run_matlab_script w (Some ''outdoor.mat'') None None)
           else run_matlab_script w None None None))
        else ret ()) (\<lambda>_.
     then_do predicted_inside_measurements_gl (\<lambda>_.
     then_do (predicted_inside_measurements_nn cfg w None) (\<lambda>_.
     then_do reset (\<lambda>_.
     ret ()))))"

definition init :: "config \<Rightarrow> world \<Rightarrow> (string \<times> mat) list \<Rightarrow> unit result \<times> state" where
  "init cfg w disk = start_up cfg w (fresh cfg disk)"

section \<open>Properties of methods\<close>

text \<open>
  \<open>keeps I m\<close>: the method \<open>m\<close> preserves \<open>I\<close>, whether it returns or raises.
  \<open>ensures P m Q\<close>: from a state in \<open>P\<close>, if \<open>m\<close> returns \<open>x\<close> then \<open>Q x\<close> holds afterwards.
  \<open>total P m Q\<close>: from a state in \<open>P\<close>, \<open>m\<close> returns, and \<open>Q\<close> holds of what it returns.
  \<open>blind upd I\<close>: \<open>I\<close> does not look at the attribute that \<open>upd\<close> updates.
\<close>

definition keeps :: "('s \<Rightarrow> bool) \<Rightarrow> ('s \<Rightarrow> 'a result \<times> 's) \<Rightarrow> bool" where
  "keeps I m = (\<forall>s. I s \<longrightarrow> I (snd (m s)))"

definition blind :: "(('v \<Rightarrow> 'v) \<Rightarrow> 's \<Rightarrow> 's) \<Rightarrow> ('s \<Rightarrow> bool) \<Rightarrow> bool" where
  "blind upd I = (\<forall>f s. I (upd f s) = I s)"

definition ensures :: "('s \<Rightarrow> bool) \<Rightarrow> ('s \<Rightarrow> 'a result \<times> 's) \<Rightarrow> ('a \<Rightarrow> 's \<Rightarrow> bool) \<Rightarrow> bool" where
  "ensures P m Q = (\<forall>s x s'. P s \<longrightarrow> m s = (Ok x, s') \<longrightarrow> Q x s')"

definition total :: "('s \<Rightarrow> bool) \<Rightarrow> ('s \<Rightarrow> 'a result \<times> 's) \<Rightarrow> ('a \<Rightarrow> 's \<Rightarrow> bool) \<Rightarrow> bool" where
  "total P m Q = (\<forall>s. P s \<longrightarrow> (\<exists>x s'. m s = (Ok x, s') \<and> Q x s'))"

definition always_ok :: "('s \<Rightarrow> 'a result \<times> 's) \<Rightarrow> bool" where
  "always_ok m = (\<forall>s. \<exists>x s'. m s = (Ok x, s'))"

text \<open>
  A state is ready for a step when the three groups of buffers exist, the control columns
  loaded from the dataset are not empty and neither are the nine simulator buffers that
  \<open>observation\<close> reads.  A file is present when it is on disk.
\<close>

definition gl_nonempty :: "gl_buffers \<Rightarrow> bool" where
  "gl_nonempty g =
     (co2_in_predicted_gl g \<noteq> [] \<and> temp_in_predicted_gl g \<noteq> [] \<and> rh_in_predicted_gl g \<noteq> [] \<and>
      PAR_in_predicted_gl g \<noteq> [] \<and> fruit_leaf_predicted_gl g \<noteq> [] \<and>
      fruit_stem_predicted_gl g \<noteq> [] \<and> fruit_dw_predicted_gl g \<noteq> [] \<and>
      fruit_cbuf_predicted_gl g \<noteq> [] \<and> fruit_tcansum_predicted_gl g \<noteq> [])"

definition ready :: "state \<Rightarrow> bool" where
  "ready s =
     ((case excel s of None \<Rightarrow> False
       | Some e \<Rightarrow> ventilation e \<noteq> [] \<and> toplights e \<noteq> [] \<and> heater e \<noteq> []) \<and>
      nn s \<noteq> None \<and>
      (case gl s of None \<Rightarrow> False | Some g \<Rightarrow> gl_nonempty g))"

definition present :: "string \<Rightarrow> state \<Rightarrow> bool" where
  "present name s = (map_of (files s) name \<noteq> None)"

text \<open>
  The collaborators are reliable when they never fail: the predictor returns predictions,
  the simulator returns a file with the ten variables and at least one sample of each
  observed quantity, and the metrics are computed.
\<close>

definition reliable :: "world \<Rightarrow> bool" where
  "reliable w =
     ((\<forall>target rows. \<exists>ys. nn_model w target rows = Ok ys) \<and>
      (\<forall>sl fd c outdoor indoor fruit disk. \<exists>m b.
          DrlGlEnvironment w sl fd c outdoor indoor fruit disk = Ok m \<and>
          read_drl_env m = Ok b \<and> gl_nonempty b) \<and>
      (\<forall>y_true y_pred. \<exists>r. calculate_metrics w y_true y_pred = Ok r))"

text \<open>
  What the later phases of a step rely on: the simulator has left a usable \<open>drl-env.mat\<close>;
  there are two samples of fruit dry weight to difference; the exchange files that
  \<open>delete_files\<close> removes are on disk.
\<close>

definition good_env :: "state \<Rightarrow> bool" where
  "good_env s = (\<exists>m b. map_of (files s) ''drl-env.mat'' = Some m \<and> read_drl_env m = Ok b \<and> gl_nonempty b)"

definition two_samples :: "state \<Rightarrow> bool" where
  "two_samples s = (case gl s of None \<Rightarrow> False | Some g \<Rightarrow> 2 \<le> length (fruit_dw_predicted_gl g))"

definition files_present :: "config \<Rightarrow> state \<Rightarrow> bool" where
  "files_present cfg s =
     (present ''controls.mat'' s \<and> present ''drl-env.mat'' s \<and> present ''indoor.mat'' s \<and>
      present ''fruit.mat'' s \<and> (online_measurements cfg \<longrightarrow> present ''outdoor.mat'' s))"

text \<open>
  The spreadsheet that \<open>done\<close> exports to, and the exchange files that \<open>delete_files\<close>
  removes, in the order it removes them.
\<close>

definition export_file :: "config \<Rightarrow> string" where
  "export_file cfg =
     (if online_measurements cfg then ''output/output_simulated_data_online.xlsx''
      else ''output/output_simulated_data_offline.xlsx'')"

definition exchange_files :: "config \<Rightarrow> string list" where
  "exchange_files cfg =
     [''controls.mat'', ''drl-env.mat'', ''indoor.mat'', ''fruit.mat''] @
     (if online_measurements cfg then [''outdoor.mat''] else [])"

text \<open>
  A session with the environment after its construction: calls of \<open>reset\<close> and \<open>step\<close>, run as
  long as none raises (\<open>None\<close> when one does).
\<close>

datatype call = Reset | Step "fl list option"

fun run :: "config \<Rightarrow> world \<Rightarrow> call list \<Rightarrow> state \<Rightarrow> state option" where
  "run cfg w [] s = Some s"
| "run cfg w (Reset # calls) s =
     (case reset s of (Ok r, s') \<Rightarrow> run cfg w calls s' | (Raise e, s') \<Rightarrow> None)"
| "run cfg w (Step action # calls) s =
     (case step cfg w action s of (Ok r, s') \<Rightarrow> run cfg w calls s' | (Raise e, s') \<Rightarrow> None)"

fun is_step :: "call \<Rightarrow> bool" where
  "is_step (Step action) = True"
| "is_step Reset = False"

definition epoch_count :: "call list \<Rightarrow> nat" where
  "epoch_count calls = length (filter is_step calls)"

section \<open>Example data\<close>

text \<open>
  A small dataset, a simulator that always returns the same four samples, a predictor that
  returns one value for each row, and an environment state after one epoch.  They serve as
  concrete inputs below.
\<close>

definition example_row :: row where
  "example_row =
     \<lparr>col_time = Fin 0, col_global_out = Fin 1, col_global_in = Fin 2, col_temp_in = Fin 3,
      col_temp_out = Fin 4, col_rh_in = Fin 5, col_rh_out = Fin 6, col_co2_in = Fin 7,
      col_co2_out = Fin 8, col_toplights = Fin 0, col_ventilation = Fin 1, col_heater = Fin 0\<rparr>"

definition example_sim :: mat where
  "example_sim =
     [(''time'', [Fin 300, Fin 600, Fin 900, Fin 1200]),
      (''co2_in'', [Fin 400, Fin 401, Fin 402, Fin 403]),
      (''temp_in'', [Fin 20, Fin 21, Fin 22, Fin 23]),
      (''rh_in'', [Fin 50, Fin 51, Fin 52, Fin 53]),
      (''PAR_in'', [Fin 1, Fin 2, Fin 3, Fin 4]),
      (''fruit_leaf'', [Fin 1, Fin 2, Fin 3, Fin 4]),
      (''fruit_stem'', [Fin 1, Fin 2, Fin 3, Fin 4]),
      (''fruit_dw'', [Fin 1, Fin 2, Fin 3, Fin 5]),
      (''fruit_cbuf'', [Fin 1, Fin 2, Fin 3, Fin 4]),
      (''fruit_tcansum'', [Fin 1, Fin 2, Fin 3, Fin 4])]"

definition example_world :: world where
  "example_world =
     \<lparr>nn_model = (\<lambda>target rows. Ok (map col_temp_in rows)),
      DrlGlEnvironment = (\<lambda>season_length first_day controls outdoor indoor fruit disk. Ok example_sim),
      co2ppm_to_dens = (\<lambda>temp co2. co2),
      rh_to_vapor_density = (\<lambda>temp rh. rh),
      vapor_density_to_pressure = (\<lambda>temp rho. rho),
      outdoor_measurements = (\<lambda>tr. []),
      calculate_metrics = (\<lambda>y_true y_pred. Ok (Fin 1, Fin 0))\<rparr>"

definition example_config :: config where
  "example_config =
     \<lparr>flag_run = True, online_measurements = False, flag_action_from_drl = False,
      max_steps = 4, first_day = Fin 1, season_length_gl0 = Fin (1 / 72),
      season_length_nn0 = 0, script_exists = True, mgh_data = replicate 24 example_row\<rparr>"

definition example_gl :: gl_buffers where
  "example_gl =
     \<lparr>time_gl = [Fin 300, Fin 600, Fin 900, Fin 1200],
      co2_in_predicted_gl = [Fin 400, Fin 401, Fin 402, Fin 403],
      temp_in_predicted_gl = [Fin 20, Fin 21, Fin 22, Fin 23],
      rh_in_predicted_gl = [Fin 50, Fin 51, Fin 52, Fin 53],
      PAR_in_predicted_gl = [Fin 1, Fin 2, Fin 3, Fin 4],
      fruit_leaf_predicted_gl = [Fin 1, Fin 2, Fin 3, Fin 4],
      fruit_stem_predicted_gl = [Fin 1, Fin 2, Fin 3, Fin 4],
      fruit_dw_predicted_gl = [Fin 1, Fin 2, Fin 3, Fin 5],
      fruit_cbuf_predicted_gl = [Fin 1, Fin 2, Fin 3, Fin 4],
      fruit_tcansum_predicted_gl = [Fin 1, Fin 2, Fin 3, Fin 4]\<rparr>"

definition example_excel :: excel_buffers where
  "example_excel =
     \<lparr>time_excel = replicate 4 (Fin 0), global_out_excel = replicate 4 (Fin 1),
      global_in_excel = replicate 4 (Fin 2), temp_in_excel = replicate 4 (Fin 3),
      temp_out_excel = replicate 4 (Fin 4), rh_in_excel = replicate 4 (Fin 5),
      rh_out_excel = replicate 4 (Fin 6), co2_in_excel = replicate 4 (Fin 7),
      co2_out_excel = replicate 4 (Fin 8), toplights = replicate 4 (Fin 0),
      ventilation = replicate 4 (Fin 1), heater = replicate 4 (Fin 0)\<rparr>"

definition example_nn :: nn_buffers where
  "example_nn =
     \<lparr>par_in_predicted_nn = replicate 4 (Fin 3), temp_in_predicted_nn = replicate 4 (Fin 3),
      rh_in_predicted_nn = replicate 4 (Fin 3), co2_in_predicted_nn = replicate 4 (Fin 3)\<rparr>"

text \<open>
  A state in the first epoch, with one batch in every buffer and the four exchange files
  on disk.
\<close>

definition example_state :: state where
  "example_state =
     \<lparr>current_step = 1, season_length_gl = Fin (1 / 72), first_day_gl = Fin 1,
      season_length_nn = 8,
      ventilation_list = replicate 4 (Fin 0), toplights_list = replicate 4 (Fin 0),
      heater_list = replicate 4 (Fin 0), rewards_list = replicate 4 (Fin 0),
      step_data = replicate 4 example_row,
      excel = Some example_excel, nn = Some example_nn, gl = Some example_gl,
      files = [(''controls.mat'', []), (''drl-env.mat'', example_sim),
               (''indoor.mat'', []), (''fruit.mat'', [])],
      trace = []\<rparr>"

text \<open>
  The states of a session in the example: \<open>example_epoch n\<close> is the state after the
  construction and \<open>n\<close> calls of \<open>step\<close>.  In \<open>nan_world\<close> the simulator's last CO2 sample is not a
  number.
\<close>

definition example_epoch :: "nat \<Rightarrow> state" where
  "example_epoch n =
     ((\<lambda>s. snd (step example_config example_world None s)) ^^ n)
       (snd (init example_config example_world []))"

definition nan_sim :: mat where
  "nan_sim = AList.update ''co2_in'' [Fin 400, Fin 401, Fin 402, NaN] example_sim"

definition nan_world :: world where
  "nan_world =
     example_world\<lparr>DrlGlEnvironment :=
       (\<lambda>season_length first_day controls outdoor indoor fruit disk. Ok nan_sim)\<rparr>"

section \<open>Rules for sequencing\<close>

lemma then_do_update: "then_do (\<lambda>s. ret x (h s)) f s = f x (h s)"
  by (simp add: then_do_def ret_def)

lemma then_do_reading:
  "then_do (reading g) f s = (case g s of Raise e \<Rightarrow> (Raise e, s) | Ok x \<Rightarrow> f x s)"
  by (simp add: then_do_def reading_def split: result.splits)

lemma then_do_ret: "then_do (ret x) f s = f x s"
  by (simp add: then_do_def ret_def)

lemma then_do_assoc: "then_do (then_do m f) g s = then_do m (\<lambda>x. then_do (f x) g) s"
  by (simp add: then_do_def split: prod.splits result.splits)


lemma then_do_Ok: "m s = (Ok x, s') \<Longrightarrow> then_do m f s = f x s'"
  by (simp add: then_do_def)


lemma keepsD: "keeps I m \<Longrightarrow> I s \<Longrightarrow> I (snd (m s))"
  by (simp add: keeps_def)

lemma blindD: "blind upd I \<Longrightarrow> I (upd f s) = I s"
  by (simp add: blind_def)

lemma keeps_ret: "keeps I (ret x)"
  by (simp add: keeps_def ret_def)

lemma keeps_reading: "keeps I (reading g)"
  by (simp add: keeps_def reading_def)

lemma keeps_then_do: "keeps I m \<Longrightarrow> (\<And>x. keeps I (f x)) \<Longrightarrow> keeps I (then_do m f)"
  unfolding keeps_def then_do_def
  by (metis (mono_tags, lifting) case_prod_beta result.case(1) result.case(2) result.exhaust snd_conv)

lemma keeps_if: "keeps I a \<Longrightarrow> keeps I b \<Longrightarrow> keeps I (if c then a else b)"
  by simp

lemma keeps_case_prod: "(\<And>a b. keeps I (f a b)) \<Longrightarrow> keeps I (case p of (a, b) \<Rightarrow> f a b)"
  by (cases p) simp

lemma keeps_case_option:
  "keeps I a \<Longrightarrow> (\<And>x. keeps I (f x)) \<Longrightarrow> keeps I (case opt of None \<Rightarrow> a | Some x \<Rightarrow> f x)"
  by (cases opt) simp_all

lemma keeps_update: "(\<And>s. I s \<Longrightarrow> I (h s)) \<Longrightarrow> keeps I (\<lambda>s. ret x (h s))"
  by (simp add: keeps_def ret_def)

lemma keeps_log: "blind trace_update I \<Longrightarrow> keeps I (\<lambda>s. ret x (log e s))"
  by (simp add: keeps_def ret_def log_def blindD)

lemma keeps_savemat: "blind files_update I \<Longrightarrow> blind trace_update I \<Longrightarrow> keeps I (savemat n m)"
  by (simp add: keeps_def savemat_def log_def blindD)

lemma keeps_loadmat: "keeps I (loadmat n)"
  by (simp add: keeps_def loadmat_def split: option.splits)

lemma keeps_os_remove: "blind files_update I \<Longrightarrow> blind trace_update I \<Longrightarrow> keeps I (os_remove n)"
  by (simp add: keeps_def os_remove_def log_def blindD split: option.splits)

lemma keeps_run_matlab_script:
  "blind files_update I \<Longrightarrow> blind trace_update I \<Longrightarrow> keeps I (run_matlab_script w a b c)"
  by (simp add: keeps_def run_matlab_script_def log_def blindD split: result.splits)

lemma keeps_get_outdoor_measurements:
  "blind files_update I \<Longrightarrow> blind trace_update I \<Longrightarrow> keeps I (get_outdoor_measurements w)"
  by (simp add: keeps_def get_outdoor_measurements_def log_def blindD)

lemma keeps_predict_inside_measurements:
  "blind trace_update I \<Longrightarrow> keeps I (\<lambda>s. predict_inside_measurements w t (r s) s)"
  by (simp add: keeps_def predict_inside_measurements_def log_def blindD)

lemma keeps_set_step_data_column:
  "blind step_data_update I \<Longrightarrow> keeps I (set_step_data_column upd vals)"
  by (simp add: keeps_def set_step_data_column_def blindD split: result.splits)

lemmas keeps_intros = keeps_ret keeps_reading keeps_then_do keeps_if keeps_case_prod keeps_case_option
  keeps_log keeps_savemat keeps_loadmat keeps_os_remove keeps_run_matlab_script
  keeps_get_outdoor_measurements keeps_predict_inside_measurements keeps_set_step_data_column

lemma keeps_delete_files:
  "blind files_update I \<Longrightarrow> blind trace_update I \<Longrightarrow> keeps I (delete_files cfg)"
  unfolding delete_files_def by (intro keeps_intros)

lemma keeps_print_and_save_all_data:
  "blind trace_update I \<Longrightarrow> keeps I (print_and_save_all_data w f)"
  unfolding print_and_save_all_data_def by (intro keeps_intros)

lemma keeps_done_episode:
  assumes "blind files_update I" "blind trace_update I"
  shows "keeps I (done_episode cfg w)"
proof -
  have K: "keeps I (then_do (print_and_save_all_data w f) (\<lambda>_.
           then_do (delete_files cfg) (\<lambda>_. ret True)))" for f
    using assms by (intro keeps_intros keeps_delete_files keeps_print_and_save_all_data)
  show ?thesis
    unfolding keeps_def done_episode_def
    using keepsD [OF K] by (auto simp add: ret_def)
qed

lemma keeps_load_excel_data:
  "blind step_data_update I \<Longrightarrow> blind excel_update I \<Longrightarrow> keeps I (load_excel_data cfg a)"
  unfolding load_excel_data_def
  by (intro keeps_intros keeps_update) (simp_all add: append_excel_def blindD)

lemma keeps_predicted_inside_measurements_nn:
  "blind step_data_update I \<Longrightarrow> blind excel_update I \<Longrightarrow> blind nn_update I \<Longrightarrow>
   blind trace_update I \<Longrightarrow> keeps I (predicted_inside_measurements_nn cfg w a)"
  unfolding predicted_inside_measurements_nn_def
  by (intro keeps_intros keeps_load_excel_data keeps_update) (simp_all add: append_nn_def blindD)

lemma keeps_predicted_inside_measurements_gl:
  "blind gl_update I \<Longrightarrow> keeps I predicted_inside_measurements_gl"
  unfolding predicted_inside_measurements_gl_def
  by (intro keeps_intros keeps_update) (simp_all add: append_gl_def blindD)

lemmas keeps_all = keeps_intros keeps_predicted_inside_measurements_nn
  keeps_predicted_inside_measurements_gl keeps_done_episode keeps_update

lemma ensuresD: "ensures P m Q \<Longrightarrow> P s \<Longrightarrow> m s = (Ok x, s') \<Longrightarrow> Q x s'"
  by (simp add: ensures_def)

lemma ensures_ret: "(\<And>s. P s \<Longrightarrow> Q x s) \<Longrightarrow> ensures P (ret x) Q"
  by (simp add: ensures_def ret_def)

lemma ensures_update: "(\<And>s. P s \<Longrightarrow> Q x (h s)) \<Longrightarrow> ensures P (\<lambda>s. ret x (h s)) Q"
  by (auto simp add: ensures_def ret_def)

lemma ensures_reading: "(\<And>s x. P s \<Longrightarrow> g s = Ok x \<Longrightarrow> Q x s) \<Longrightarrow> ensures P (reading g) Q"
  by (auto simp add: ensures_def reading_def)

lemma ensures_then_do:
  "ensures P m R \<Longrightarrow> (\<And>x. ensures (R x) (f x) Q) \<Longrightarrow> ensures P (then_do m f) Q"
  unfolding ensures_def then_do_def
  by (auto split: prod.splits result.splits)

lemma ensures_keeps: "keeps I m \<Longrightarrow> ensures I m (\<lambda>_. I)"
  unfolding ensures_def keeps_def by (metis snd_conv)

lemma ensures_after: "keeps I m \<Longrightarrow> (\<And>x. ensures I (f x) Q) \<Longrightarrow> ensures I (then_do m f) Q"
  by (rule ensures_then_do [OF ensures_keeps])

lemma ensures_case_prod:
  "(\<And>a b. p = (a, b) \<Longrightarrow> ensures P (f a b) Q) \<Longrightarrow> ensures P (case p of (a, b) \<Rightarrow> f a b) Q"
  by (cases p) simp

lemma totalD: "total P m Q \<Longrightarrow> P s \<Longrightarrow> \<exists>x s'. m s = (Ok x, s') \<and> Q x s'"
  by (simp add: total_def)

lemma total_then_do:
  "total P m R \<Longrightarrow> (\<And>x. total (R x) (f x) Q) \<Longrightarrow> total P (then_do m f) Q"
  unfolding total_def then_do_def by fastforce

lemma total_ret: "(\<And>s. P s \<Longrightarrow> Q x s) \<Longrightarrow> total P (ret x) Q"
  by (simp add: total_def ret_def)

lemma total_reading: "(\<And>s. P s \<Longrightarrow> \<exists>x. g s = Ok x \<and> Q x s) \<Longrightarrow> total P (reading g) Q"
  by (simp add: total_def reading_def)

lemma total_case_prod:
  "(\<And>a b. p = (a, b) \<Longrightarrow> total P (f a b) Q) \<Longrightarrow> total P (case p of (a, b) \<Rightarrow> f a b) Q"
  by (cases p) simp

lemma total_weaken: "total P' m Q' \<Longrightarrow> (\<And>s. P s \<Longrightarrow> P' s) \<Longrightarrow> (\<And>x s. Q' x s \<Longrightarrow> Q x s) \<Longrightarrow> total P m Q"
  unfolding total_def by blast

lemma total_always: "always_ok m \<Longrightarrow> keeps I m \<Longrightarrow> total I m (\<lambda>_. I)"
  unfolding total_def always_ok_def keeps_def by (metis snd_conv)

lemma total_after:
  "always_ok m \<Longrightarrow> keeps I m \<Longrightarrow> (\<And>x. total I (f x) Q) \<Longrightarrow> total I (then_do m f) Q"
  by (rule total_then_do [OF total_always])

lemma total_read:
  "(\<And>s. P s \<Longrightarrow> \<exists>x. g s = Ok x) \<Longrightarrow> (\<And>x. total P (f x) Q) \<Longrightarrow> total P (then_do (reading g) f) Q"
  by (rule total_then_do [where R = "\<lambda>_. P"]) (auto intro: total_reading)

lemma always_ok_ret: "always_ok (ret x)"
  by (simp add: always_ok_def ret_def)

lemma always_ok_update: "always_ok (\<lambda>s. ret x (h s))"
  by (simp add: always_ok_def ret_def)

lemma always_ok_savemat: "always_ok (savemat n m)"
  by (simp add: always_ok_def savemat_def)

lemma always_ok_get_outdoor_measurements: "always_ok (get_outdoor_measurements w)"
  by (simp add: always_ok_def get_outdoor_measurements_def)

lemma always_ok_if: "always_ok a \<Longrightarrow> always_ok b \<Longrightarrow> always_ok (if c then a else b)"
  by simp

lemmas always_ok_intros = always_ok_ret always_ok_update always_ok_savemat
  always_ok_get_outdoor_measurements always_ok_if

lemma keeps_conj: "keeps I m \<Longrightarrow> keeps J m \<Longrightarrow> keeps (\<lambda>s. I s \<and> J s) m"
  by (simp add: keeps_def)

lemma keeps_const: "keeps (\<lambda>s. C) m"
  by (simp add: keeps_def)

lemma keeps_present_savemat: "keeps (present k) (savemat n m)"
  by (simp add: keeps_def savemat_def present_def log_def update_conv')

lemma keeps_present_get_outdoor_measurements: "keeps (present k) (get_outdoor_measurements w)"
  by (simp add: keeps_def get_outdoor_measurements_def present_def log_def update_conv')

lemma keeps_present_run_matlab_script: "keeps (present k) (run_matlab_script w a b c)"
  by (simp add: keeps_def run_matlab_script_def present_def log_def update_conv' split: result.splits)

lemma keeps_present_update: "(\<And>s. files (h s) = files s) \<Longrightarrow> keeps (present k) (\<lambda>s. ret x (h s))"
  by (simp add: keeps_def ret_def present_def)

section \<open>Facts about one epoch\<close>

lemma step_rewards_ensures:
  "ensures (\<lambda>s. rewards_list s = R) (step cfg w a)
     (\<lambda>r s. rewards_list s = R @ replicate 4 (fst (snd r)))"
  unfolding step_def
  apply ((rule ensures_case_prod | (rule ensures_after, (intro keeps_all; (simp add: blind_def; fail))[1]))+)
  apply (rename_tac reward)
  apply (rule_tac R = "\<lambda>_ s. rewards_list s = R @ replicate 4 reward" in ensures_then_do)
   apply (rule ensures_update, simp)
  apply ((rule ensures_case_prod | (rule ensures_after, (intro keeps_all; (simp add: blind_def; fail))[1]))+)
  apply (rule ensures_ret, simp)
  done

lemma observation_gl: "gl s = gl s' \<Longrightarrow> observation s = observation s'"
  by (simp add: observation_def)

lemma observation_tail:
  "ensures (\<lambda>s. True)
     (then_do (reading observation) (\<lambda>obs.
      then_do (done_episode cfg w) (\<lambda>terminated.
      ret (obs, reward, terminated, False, []))))
     (\<lambda>r s. observation s = Ok (fst r))"
  apply (rule ensures_then_do [where R = "\<lambda>obs s. observation s = Ok obs"])
   apply (rule ensures_reading, simp)
  apply (rule ensures_after)
   apply (intro keeps_all; simp add: blind_def observation_def)
  apply (rule ensures_ret, simp)
  done

lemma step_observation_ensures:
  "ensures (\<lambda>s. True) (step cfg w a) (\<lambda>r s. observation s = Ok (fst r))"
  unfolding step_def
  apply ((rule observation_tail | rule ensures_case_prod
      | (rule ensures_after, (intro keeps_all; (simp add: blind_def; fail))[1]))+)
  done

lemma load_excel_data_dataset:
  "\<not> flag_action_from_drl cfg \<Longrightarrow> load_excel_data cfg a = load_excel_data cfg None"
  by (simp add: load_excel_data_def)

lemma control_vector_dataset:
  "\<not> flag_action_from_drl cfg \<Longrightarrow> control_vector cfg a = control_vector cfg None"
  by (simp add: control_vector_def fun_eq_iff)

lemma step_dataset:
  assumes "\<not> flag_action_from_drl cfg"
  shows "step cfg w a = step cfg w None"
  unfolding step_def predicted_inside_measurements_nn_def
    load_excel_data_dataset [OF assms, of a] control_vector_dataset [OF assms, of a]
  by (rule refl)









lemma set_step_data_column_full:
  "length (step_data s) = length vals \<Longrightarrow> vals \<noteq> [] \<Longrightarrow>
   set_step_data_column upd vals s =
     (Ok (), s\<lparr>step_data := map (\<lambda>(v, r). upd v r) (zip vals (step_data s))\<rparr>)"
  by (auto simp add: set_step_data_column_def assign_column_def)

lemma then_do_assoc': "then_do (then_do m f) g = then_do m (\<lambda>x. then_do (f x) g)"
  by (simp add: fun_eq_iff then_do_def split: prod.splits result.splits)

lemma load_excel_data_agent:
  assumes "flag_action_from_drl cfg" "convert_actions a = Ok (v, t, h)"
    "season_length_nn s + 4 \<le> length (mgh_data cfg)"
  shows "load_excel_data cfg (Some a) s =
    (Ok (), append_excel
       \<lparr>time_excel = map col_time (take 4 (drop (season_length_nn s) (mgh_data cfg))),
        global_out_excel = map col_global_out (take 4 (drop (season_length_nn s) (mgh_data cfg))),
        global_in_excel = map col_global_in (take 4 (drop (season_length_nn s) (mgh_data cfg))),
        temp_in_excel = map col_temp_in (take 4 (drop (season_length_nn s) (mgh_data cfg))),
        temp_out_excel = map col_temp_out (take 4 (drop (season_length_nn s) (mgh_data cfg))),
        rh_in_excel = map col_rh_in (take 4 (drop (season_length_nn s) (mgh_data cfg))),
        rh_out_excel = map col_rh_out (take 4 (drop (season_length_nn s) (mgh_data cfg))),
        co2_in_excel = map col_co2_in (take 4 (drop (season_length_nn s) (mgh_data cfg))),
        co2_out_excel = map col_co2_out (take 4 (drop (season_length_nn s) (mgh_data cfg))),
        toplights = replicate 4 t,
        ventilation = replicate 4 v,
        heater = replicate 4 h\<rparr>
       (s\<lparr>step_data := map (\<lambda>r. r\<lparr>col_toplights := t, col_ventilation := v, col_heater := h\<rparr>)
           (take 4 (drop (season_length_nn s) (mgh_data cfg)))\<rparr>))"
proof -
  let ?W = "take 4 (drop (season_length_nn s) (mgh_data cfg))"
  define W1 where "W1 = map (\<lambda>r. r\<lparr>col_toplights := t\<rparr>) ?W"
  define W2 where "W2 = map (\<lambda>r. r\<lparr>col_ventilation := v\<rparr>) W1"
  define W3 where "W3 = map (\<lambda>r. r\<lparr>col_heater := h\<rparr>) W2"
  have L: "length ?W = 4"
    using assms(3) by simp
  have Z: "map (\<lambda>(x, r). f x r) (zip (replicate 4 c) rows) = map (f c) rows"
    if "length rows = 4" for f :: "fl \<Rightarrow> row \<Rightarrow> row" and c rows
    using that by (auto simp add: list_eq_iff_nth_eq)
  have L1: "length W1 = 4" and L2: "length W2 = 4"
    using assms(3) by (simp_all add: W1_def W2_def)
  have c1: "set_step_data_column (\<lambda>x r. r\<lparr>col_toplights := x\<rparr>) (replicate 4 t) (s\<lparr>step_data := ?W\<rparr>) =
      (Ok (), s\<lparr>step_data := W1\<rparr>)"
    using assms(3) by (simp add: set_step_data_column_full Z W1_def)
  have c2: "set_step_data_column (\<lambda>x r. r\<lparr>col_ventilation := x\<rparr>) (replicate 4 v) (s\<lparr>step_data := W1\<rparr>) =
      (Ok (), s\<lparr>step_data := W2\<rparr>)"
    by (simp add: set_step_data_column_full L1 Z W2_def)
  have c3: "set_step_data_column (\<lambda>x r. r\<lparr>col_heater := x\<rparr>) (replicate 4 h) (s\<lparr>step_data := W2\<rparr>) =
      (Ok (), s\<lparr>step_data := W3\<rparr>)"
    by (simp add: set_step_data_column_full L2 Z W3_def)
  have W3: "W3 = map (\<lambda>r. r\<lparr>col_toplights := t, col_ventilation := v, col_heater := h\<rparr>) ?W"
    by (simp add: W3_def W2_def W1_def o_def)
  have cols: "map col_toplights W3 = replicate 4 t" "map col_ventilation W3 = replicate 4 v"
    "map col_heater W3 = replicate 4 h"
    using assms(3) by (simp_all add: W3 o_def map_replicate_const)
  show ?thesis
    unfolding load_excel_data_def
    apply (subst then_do_update)
    apply (subst then_do_reading)
    apply (simp add: assms(1) then_do_assoc' then_do_reading assms(2)
             then_do_Ok [of "set_step_data_column (\<lambda>x r. r\<lparr>col_toplights := x\<rparr>) (replicate 4 t)"
                           "s\<lparr>step_data := ?W\<rparr>", OF c1]
             then_do_Ok [of "set_step_data_column (\<lambda>x r. r\<lparr>col_ventilation := x\<rparr>) (replicate 4 v)"
                           "s\<lparr>step_data := W1\<rparr>", OF c2]
             then_do_Ok [of "set_step_data_column (\<lambda>x r. r\<lparr>col_heater := x\<rparr>) (replicate 4 h)"
                           "s\<lparr>step_data := W2\<rparr>", OF c3] cols ret_def)
    apply (simp add: W3)
    done
qed

section \<open>Each phase of an epoch returns\<close>

lemma keeps_then_update:
  assumes "\<And>x. keeps I (f x)" "I (h s)"
  shows "I (snd (then_do (\<lambda>s. ret x (h s)) f s))"
  by (subst then_do_update) (rule keepsD [OF assms])

lemma step_current_step: "current_step (snd (step cfg w a s)) = current_step s + 1"
  unfolding step_def
  apply (rule keeps_then_update [where I = "\<lambda>s'. current_step s' = current_step s + 1"])
   apply (intro keeps_all; simp add: blind_def)
  apply simp
  done

lemma lastn_nonempty: "xs \<noteq> [] \<Longrightarrow> 0 < n \<Longrightarrow> lastn n xs \<noteq> []"
  by (cases xs) (auto simp add: lastn_def)

lemma total_update: "(\<And>s. P s \<Longrightarrow> Q x (h s)) \<Longrightarrow> total P (\<lambda>s. ret x (h s)) Q"
  by (simp add: total_def ret_def)

lemma total_if: "total P a Q \<Longrightarrow> total P b Q \<Longrightarrow> total P (if c then a else b) Q"
  by simp

lemma total_frame:
  "total P m Q \<Longrightarrow> keeps C m \<Longrightarrow> total (\<lambda>s. P s \<and> C s) m (\<lambda>x s. Q x s \<and> C s)"
  unfolding total_def keeps_def by (metis snd_conv)

lemma total_savemat:
  "keeps J (savemat n m) \<Longrightarrow> total J (savemat n m) (\<lambda>_ s. J s \<and> present n s)"
  unfolding total_def keeps_def
  by (auto simp add: savemat_def present_def log_def update_conv')

lemma total_outdoor:
  "keeps J (get_outdoor_measurements w) \<Longrightarrow>
   total J (if online_measurements cfg then get_outdoor_measurements w else ret ())
     (\<lambda>_ s. J s \<and> (online_measurements cfg \<longrightarrow> present ''outdoor.mat'' s))"
  unfolding total_def keeps_def
  by (auto simp add: get_outdoor_measurements_def present_def log_def update_conv' ret_def)

lemma total_run_matlab_script:
  assumes "reliable w" "keeps J (run_matlab_script w a b c)"
  shows "total J (run_matlab_script w a b c) (\<lambda>_ s. J s \<and> good_env s)"
proof -
  have "\<exists>x s'. run_matlab_script w a b c s = (Ok x, s') \<and> good_env s'" for s
  proof -
    obtain m g where "DrlGlEnvironment w (season_length_gl s) (first_day_gl s) ''controls.mat'' a b c (files s) = Ok m"
      "read_drl_env m = Ok g" "gl_nonempty g"
      using assms(1) unfolding reliable_def by blast
    then show ?thesis
      by (auto simp add: run_matlab_script_def good_env_def log_def update_conv')
  qed
  then show ?thesis
    using assms(2) unfolding total_def keeps_def by (metis snd_conv)
qed

lemma total_predict:
  assumes "reliable w" "blind trace_update I"
  shows "total I (\<lambda>s. predict_inside_measurements w t (step_data s) s) (\<lambda>_. I)"
proof -
  have "\<exists>ys. nn_model w t rows = Ok ys" for rows
    using assms(1) unfolding reliable_def by blast
  then show ?thesis
    unfolding total_def predict_inside_measurements_def
    by (auto simp add: log_def blindD [OF assms(2)])
qed


lemma load_excel_data_no_agent:
  assumes "(if flag_action_from_drl cfg then action else None) = None"
  shows "load_excel_data cfg action s =
    (Ok (), append_excel
       \<lparr>time_excel = map col_time (take 4 (drop (season_length_nn s) (mgh_data cfg))),
        global_out_excel = map col_global_out (take 4 (drop (season_length_nn s) (mgh_data cfg))),
        global_in_excel = map col_global_in (take 4 (drop (season_length_nn s) (mgh_data cfg))),
        temp_in_excel = map col_temp_in (take 4 (drop (season_length_nn s) (mgh_data cfg))),
        temp_out_excel = map col_temp_out (take 4 (drop (season_length_nn s) (mgh_data cfg))),
        rh_in_excel = map col_rh_in (take 4 (drop (season_length_nn s) (mgh_data cfg))),
        rh_out_excel = map col_rh_out (take 4 (drop (season_length_nn s) (mgh_data cfg))),
        co2_in_excel = map col_co2_in (take 4 (drop (season_length_nn s) (mgh_data cfg))),
        co2_out_excel = map col_co2_out (take 4 (drop (season_length_nn s) (mgh_data cfg))),
        toplights = map col_toplights (take 4 (drop (season_length_nn s) (mgh_data cfg))),
        ventilation = map col_ventilation (take 4 (drop (season_length_nn s) (mgh_data cfg))),
        heater = map col_heater (take 4 (drop (season_length_nn s) (mgh_data cfg)))\<rparr>
       (s\<lparr>step_data := take 4 (drop (season_length_nn s) (mgh_data cfg))\<rparr>))"
  unfolding load_excel_data_def
  apply (subst then_do_update)
  apply (subst then_do_reading)
  apply (simp add: assms then_do_reading ret_def)
  done

lemma convert_actions_long:
  "3 \<le> length a \<Longrightarrow>
   convert_actions a = Ok (discretise (a ! 0), discretise (a ! 1), discretise (a ! 2))"
  by (auto simp add: convert_actions_def rbind_def index_def)

lemma ready_append_excel:
  "ready s \<Longrightarrow> ready (append_excel new (s\<lparr>step_data := W\<rparr>))"
  by (cases "excel s") (simp_all add: ready_def append_excel_def concat_excel_def)

lemma load_excel_data_total:
  assumes "flag_action_from_drl cfg \<longrightarrow> (\<exists>a. action = Some a \<and> 3 \<le> length a)"
  shows "total (\<lambda>s. ready s \<and> (flag_action_from_drl cfg \<longrightarrow> season_length_nn s + 4 \<le> length (mgh_data cfg)))
           (load_excel_data cfg action) (\<lambda>_. ready)"
proof (cases "flag_action_from_drl cfg")
  case True
  then obtain a where a: "action = Some a" "3 \<le> length a"
    using assms by blast
  show ?thesis
    unfolding total_def
  proof (intro allI impI)
    fix s
    assume P: "ready s \<and> (flag_action_from_drl cfg \<longrightarrow> season_length_nn s + 4 \<le> length (mgh_data cfg))"
    then have W: "season_length_nn s + 4 \<le> length (mgh_data cfg)"
      using True by simp
    note E = load_excel_data_agent [OF True convert_actions_long [OF a(2)] W]
    from P have "ready s" by simp
    then show "\<exists>x s'. load_excel_data cfg action s = (Ok x, s') \<and> ready s'"
      unfolding a(1) E by (simp add: ready_append_excel)
  qed
next
  case False
  then have N: "(if flag_action_from_drl cfg then action else None) = None"
    by simp
  show ?thesis
    unfolding total_def load_excel_data_no_agent [OF N]
    by (simp add: ready_append_excel)
qed

lemma nn_total:
  assumes "reliable w" "flag_action_from_drl cfg \<longrightarrow> (\<exists>a. action = Some a \<and> 3 \<le> length a)"
  shows "total (\<lambda>s. ready s \<and> (flag_action_from_drl cfg \<longrightarrow> season_length_nn s + 4 \<le> length (mgh_data cfg)))
           (predicted_inside_measurements_nn cfg w action) (\<lambda>_. ready)"
  unfolding predicted_inside_measurements_nn_def
  apply (rule total_then_do [OF load_excel_data_total [OF assms(2)]])
  apply (rule total_then_do [OF total_predict [OF assms(1)]], simp add: blind_def ready_def)+
  apply (rule total_update)
  apply (simp add: ready_def append_nn_def)
  done

lemma gl_closed:
  "map_of (files s) ''drl-env.mat'' = Some m \<Longrightarrow> read_drl_env m = Ok b \<Longrightarrow>
   predicted_inside_measurements_gl s = (Ok (), append_gl b s)"
  by (simp add: predicted_inside_measurements_gl_def then_do_def loadmat_def reading_def ret_def)

lemma ready_append_gl:
  assumes "ready s" "gl_nonempty b"
  shows "ready (append_gl b s)" and "two_samples (append_gl b s)"
proof -
  from assms(1) obtain g where g: "gl s = Some g" "gl_nonempty g"
    by (cases "gl s") (simp_all add: ready_def)
  have G: "gl (append_gl b s) = Some (concat_gl g b)"
    by (simp add: append_gl_def g)
  have N: "gl_nonempty (concat_gl g b)"
    using g(2) by (simp add: gl_nonempty_def concat_gl_def)
  have "length (fruit_dw_predicted_gl (concat_gl g b)) =
      length (fruit_dw_predicted_gl g) + length (fruit_dw_predicted_gl b)"
    by (simp add: concat_gl_def)
  moreover have "length (fruit_dw_predicted_gl g) \<noteq> 0" "length (fruit_dw_predicted_gl b) \<noteq> 0"
    using g(2) assms(2) by (simp_all add: gl_nonempty_def)
  ultimately have L: "2 \<le> length (fruit_dw_predicted_gl (concat_gl g b))"
    by arith
  show "ready (append_gl b s)"
    using assms(1) N by (simp add: ready_def G) (simp add: append_gl_def)
  show "two_samples (append_gl b s)"
    using L by (simp add: two_samples_def G)
qed

lemma gl_total:
  "total (\<lambda>s. ready s \<and> good_env s) predicted_inside_measurements_gl (\<lambda>_ s. ready s \<and> two_samples s)"
  unfolding total_def
proof (intro allI impI)
  fix s
  assume P: "ready s \<and> good_env s"
  then obtain m b where m: "map_of (files s) ''drl-env.mat'' = Some m" "read_drl_env m = Ok b"
    "gl_nonempty b"
    unfolding good_env_def by blast
  from P have "ready s" by simp
  then show "\<exists>x s'. predicted_inside_measurements_gl s = (Ok x, s') \<and> ready s' \<and> two_samples s'"
    unfolding gl_closed [OF m(1) m(2)] using ready_append_gl [OF _ m(3)] by simp
qed


lemma os_remove_present:
  "present n s \<Longrightarrow>
   os_remove n s = (Ok (), s\<lparr>files := AList.delete n (files s), trace := trace s @ [Remove n]\<rparr>)"
  by (auto simp add: os_remove_def present_def log_def)

lemma delete_files_ok:
  assumes "files_present cfg s"
  shows "\<exists>s'. delete_files cfg s = (Ok (), s')"
  using assms unfolding files_present_def delete_files_def
  by (cases "online_measurements cfg")
     (simp_all add: then_do_def os_remove_present present_def delete_conv' ret_def)

lemma evaluate_predictions_ok:
  assumes "reliable w" "ready s"
  shows "\<exists>r. evaluate_predictions w s = Ok r"
proof -
  from assms(2) obtain e n g where b: "excel s = Some e" "nn s = Some n" "gl s = Some g"
    by (cases "excel s"; cases "nn s"; cases "gl s") (simp_all add: ready_def)
  have M: "\<exists>r. calculate_metrics w y p = Ok r" for y p
    using assms(1) unfolding reliable_def by blast
  obtain r1 where r1: "calculate_metrics w (global_in_excel e) (par_in_predicted_nn n) = Ok r1" using M by blast
  obtain r2 where r2: "calculate_metrics w (temp_in_excel e) (temp_in_predicted_nn n) = Ok r2" using M by blast
  obtain r3 where r3: "calculate_metrics w (rh_in_excel e) (rh_in_predicted_nn n) = Ok r3" using M by blast
  obtain r4 where r4: "calculate_metrics w (co2_in_excel e) (co2_in_predicted_nn n) = Ok r4" using M by blast
  obtain r5 where r5: "calculate_metrics w (global_in_excel e) (PAR_in_predicted_gl g) = Ok r5" using M by blast
  obtain r6 where r6: "calculate_metrics w (temp_in_excel e) (temp_in_predicted_gl g) = Ok r6" using M by blast
  obtain r7 where r7: "calculate_metrics w (rh_in_excel e) (rh_in_predicted_gl g) = Ok r7" using M by blast
  obtain r8 where r8: "calculate_metrics w (co2_in_excel e) (co2_in_predicted_gl g) = Ok r8" using M by blast
  show ?thesis
    by (simp add: evaluate_predictions_def b rbind_def r1 r2 r3 r4 r5 r6 r7 r8)
qed

lemma print_and_save_all_data_closed:
  "evaluate_predictions w s = Ok r \<Longrightarrow>
   print_and_save_all_data w f s =
     (Ok (), s\<lparr>trace := trace s @ [Export f, Plot ''output/output_all_data.png'',
                                      Plot ''output/output_rewards_action.png'']\<rparr>)"
  by (simp add: print_and_save_all_data_def then_do_def reading_def ret_def log_def)

lemma then_do_OkE:
  assumes "then_do m f s = (Ok y, s')"
  obtains x s1 where "m s = (Ok x, s1)" "f x s1 = (Ok y, s')"
  using assms by (auto simp add: then_do_def split: prod.splits result.splits)

lemma done_episode_value:
  assumes "done_episode cfg w s = (Ok b, s')"
  shows "b = (max_steps cfg \<le> current_step s)"
proof (cases "flag_run cfg \<and> max_steps cfg \<le> current_step s")
  case True
  with assms have "then_do
             (if online_measurements cfg
              then print_and_save_all_data w ''output/output_simulated_data_online.xlsx''
              else print_and_save_all_data w ''output/output_simulated_data_offline.xlsx'') (\<lambda>_.
           then_do (delete_files cfg) (\<lambda>_.
           ret True)) s = (Ok b, s')"
    by (simp add: done_episode_def)
  then have "b = True"
    by (elim then_do_OkE) (simp add: ret_def)
  with True show ?thesis by simp
next
  case False
  with assms show ?thesis
    by (auto simp add: done_episode_def ret_def split: if_splits)
qed

lemma done_episode_returns:
  assumes "reliable w" "ready s" "files_present cfg s"
  shows "\<exists>s'. done_episode cfg w s = (Ok (max_steps cfg \<le> current_step s), s')"
proof (cases "flag_run cfg \<and> max_steps cfg \<le> current_step s")
  case True
  obtain r where r: "evaluate_predictions w s = Ok r"
    using evaluate_predictions_ok [OF assms(1,2)] by blast
  define f where "f = (if online_measurements cfg
      then ''output/output_simulated_data_online.xlsx''
      else ''output/output_simulated_data_offline.xlsx'')"
  define s1 where "s1 = s\<lparr>trace := trace s @ [Export f, Plot ''output/output_all_data.png'',
                                      Plot ''output/output_rewards_action.png'']\<rparr>"
  have P: "print_and_save_all_data w f s = (Ok (), s1)"
    unfolding s1_def by (rule print_and_save_all_data_closed [OF r])
  have "files_present cfg s1"
    using assms(3) by (simp add: files_present_def present_def s1_def)
  then obtain s2 where D: "delete_files cfg s1 = (Ok (), s2)"
    using delete_files_ok by blast
  have "done_episode cfg w s =
      then_do (print_and_save_all_data w f) (\<lambda>_. then_do (delete_files cfg) (\<lambda>_. ret True)) s"
    using True by (simp add: done_episode_def f_def)
  also have "\<dots> = (Ok True, s2)"
    by (simp add: then_do_Ok [of "print_and_save_all_data w f" s, OF P]
          then_do_Ok [of "delete_files cfg" s1, OF D] ret_def)
  finally show ?thesis
    using True by simp
next
  case False
  then show ?thesis
    by (auto simp add: done_episode_def ret_def)
qed

lemma done_total:
  assumes "reliable w"
  shows "total (\<lambda>s. ready s \<and> files_present cfg s) (done_episode cfg w) (\<lambda>_. ready)"
  unfolding total_def
proof (intro allI impI)
  fix s
  assume P: "ready s \<and> files_present cfg s"
  then obtain s' where s': "done_episode cfg w s = (Ok (max_steps cfg \<le> current_step s), s')"
    using done_episode_returns [OF assms] by blast
  have "keeps ready (done_episode cfg w)"
    by (rule keeps_done_episode) (simp_all add: blind_def ready_def)
  from keepsD [OF this, of s] P s' have "ready s'"
    by simp
  with s' show "\<exists>x s'. done_episode cfg w s = (Ok x, s') \<and> ready s'"
    by blast
qed


lemma keeps_imp: "keeps J m \<Longrightarrow> keeps (\<lambda>s. C \<longrightarrow> J s) m"
  by (simp add: keeps_def)

lemma index_neg_last: "xs \<noteq> [] \<Longrightarrow> index_neg xs (Suc 0) = Ok (last xs)"
  by (simp add: index_neg_def last_conv_nth Suc_le_eq)

lemma observation_last:
  assumes "gl s = Some g" "gl_nonempty g"
  shows "observation s =
    Ok (map float32
      [last (co2_in_predicted_gl g), last (temp_in_predicted_gl g), last (rh_in_predicted_gl g),
       last (PAR_in_predicted_gl g), last (fruit_leaf_predicted_gl g),
       last (fruit_stem_predicted_gl g), last (fruit_dw_predicted_gl g),
       last (fruit_cbuf_predicted_gl g), last (fruit_tcansum_predicted_gl g)])"
  using assms(2) unfolding gl_nonempty_def
  by (simp add: observation_def assms(1) rbind_def index_neg_last)

lemma observation_ready: "ready s \<Longrightarrow> \<exists>obs. observation s = Ok obs"
  by (cases "gl s") (simp_all add: ready_def observation_last)

lemma keeps_ready_gl: "keeps ready predicted_inside_measurements_gl"
proof -
  have "ready (append_gl b s)" if "ready s" for b s
    using that
    by (cases "gl s")
       (simp_all add: ready_def append_gl_def concat_gl_def gl_nonempty_def)
  then show ?thesis
    unfolding predicted_inside_measurements_gl_def
    by (intro keeps_all) simp
qed

lemma total_gl:
  assumes "keeps P predicted_inside_measurements_gl" "\<And>s. P s \<Longrightarrow> ready s \<and> good_env s"
  shows "total P predicted_inside_measurements_gl (\<lambda>_ s. P s \<and> two_samples s)"
  unfolding total_def
proof (intro allI impI)
  fix s
  assume P: "P s"
  then have "ready s \<and> good_env s"
    by (rule assms(2))
  then obtain x s' where s': "predicted_inside_measurements_gl s = (Ok x, s')" "two_samples s'"
    using totalD [OF gl_total, of s] by blast
  from keepsD [OF assms(1) P] s'(1) have "P s'"
    by simp
  with s' show "\<exists>x s'. predicted_inside_measurements_gl s = (Ok x, s') \<and> P s' \<and> two_samples s'"
    by blast
qed

lemma control_vector_total:
  assumes "flag_action_from_drl cfg \<longrightarrow> (\<exists>a. action = Some a \<and> 3 \<le> length a)"
  shows "total ready (reading (control_vector cfg action))
     (\<lambda>cv s. ready s \<and> fst (snd cv) \<noteq> [] \<and> fst (snd (snd cv)) \<noteq> [] \<and> snd (snd (snd cv)) \<noteq> [])"
proof (rule total_reading)
  fix s
  assume r: "ready s"
  show "\<exists>x. control_vector cfg action s = Ok x \<and>
          ready s \<and> fst (snd x) \<noteq> [] \<and> fst (snd (snd x)) \<noteq> [] \<and> snd (snd (snd x)) \<noteq> []"
  proof (cases "flag_action_from_drl cfg")
    case True
    then obtain a where a: "action = Some a" "3 \<le> length a"
      using assms by blast
    show ?thesis
      using r True by (simp add: control_vector_def a(1) convert_actions_long [OF a(2)] rbind_def)
  next
    case False
    from r obtain e where e: "excel s = Some e" "ventilation e \<noteq> []" "toplights e \<noteq> []" "heater e \<noteq> []"
      by (cases "excel s") (simp_all add: ready_def)
    show ?thesis
      using r False by (simp add: control_vector_def e lastn_nonempty)
  qed
qed

lemma step_total:
  assumes R: "reliable w"
    and A: "flag_action_from_drl cfg \<longrightarrow> (\<exists>a. action = Some a \<and> 3 \<le> length a)"
  shows "total (\<lambda>s. ready s \<and> (flag_action_from_drl cfg \<longrightarrow> season_length_nn s + 4 \<le> length (mgh_data cfg)))
           (step cfg w action) (\<lambda>_. ready)"
  unfolding step_def
  apply (rule total_after)
    apply (rule always_ok_update)
   apply (rule keeps_update, simp add: ready_def)
  apply (rule total_then_do [OF nn_total [OF R A]])
  apply (rule total_then_do [OF control_vector_total [OF A]])
  apply (rule total_case_prod)+
  apply (rule total_after, rule always_ok_update, rule keeps_update, simp add: ready_def)
  apply (rule total_after, rule always_ok_update, rule keeps_update, simp add: ready_def)
  apply (rule total_after, rule always_ok_update, rule keeps_update, simp add: ready_def)
  apply (rule total_after)
    apply (intro always_ok_intros)
   apply (intro keeps_all; simp add: blind_def ready_def)
  apply (rule total_then_do [OF total_savemat])
   apply (intro keeps_all; simp add: blind_def ready_def)
  apply (rule total_after, rule always_ok_update, rule keeps_update, simp add: ready_def present_def)
  apply (rule total_after, rule always_ok_update, rule keeps_update, simp add: ready_def present_def)
  apply (rule total_after, rule always_ok_update, rule keeps_update, simp add: ready_def present_def)
  apply (rule total_read)
   apply (simp add: drl_indoor_def ready_def Let_def split: option.splits)
  apply (rule total_then_do [OF total_savemat])
   apply (intro keeps_conj keeps_const keeps_present_savemat keeps_all; simp add: blind_def ready_def)
  apply (rule total_read)
   apply (simp add: fruit_growth_def ready_def split: option.splits)
  apply (rule total_then_do [OF total_savemat])
   apply (intro keeps_conj keeps_const keeps_present_savemat keeps_all; simp add: blind_def ready_def)
  apply (rule total_then_do [OF total_outdoor])
   apply (intro keeps_conj keeps_const keeps_present_get_outdoor_measurements keeps_all;
          simp add: blind_def ready_def)
  apply (rule total_then_do [OF total_if [OF total_run_matlab_script [OF R]
                                            total_run_matlab_script [OF R]]])
    apply (intro keeps_conj keeps_const keeps_imp keeps_present_run_matlab_script keeps_all;
           simp add: blind_def ready_def)
   apply (intro keeps_conj keeps_const keeps_imp keeps_present_run_matlab_script keeps_all;
          simp add: blind_def ready_def)
  apply (rule total_then_do [OF total_gl])
    apply (intro keeps_conj keeps_const keeps_imp keeps_ready_gl keeps_predicted_inside_measurements_gl;
           simp add: blind_def present_def good_env_def)
   apply simp
  apply (rule total_read)
   apply (simp add: rbind_def index_def get_reward_def two_samples_def index_neg_def
            split: option.splits)
  apply (rule total_after, rule always_ok_update, rule keeps_update,
         simp add: ready_def present_def good_env_def two_samples_def)
  apply (rule total_read)
   apply (simp add: observation_ready)
  apply (rule total_then_do [where R = "\<lambda>_. ready"])
   apply (rule total_weaken [OF done_total [OF R]])
    apply (auto simp add: files_present_def good_env_def present_def)[1]
   apply simp
  apply (rule total_ret)
  apply simp
  done

lemma always_ok_then_do: "always_ok m \<Longrightarrow> (\<And>x. always_ok (f x)) \<Longrightarrow> always_ok (then_do m f)"
  unfolding always_ok_def then_do_def
  by (metis (mono_tags, lifting) case_prod_conv result.simps(5))

lemma always_ok_reading: "always_ok (reading (\<lambda>s. Ok (g s)))"
  by (simp add: always_ok_def reading_def)

lemma always_ok_init_controls: "always_ok init_controls"
  unfolding init_controls_def
  by (intro always_ok_then_do always_ok_reading always_ok_intros)

lemma keeps_init_controls:
  "blind ventilation_list_update I \<Longrightarrow> blind toplights_list_update I \<Longrightarrow>
   blind heater_list_update I \<Longrightarrow> blind files_update I \<Longrightarrow> blind trace_update I \<Longrightarrow>
   keeps I init_controls"
  unfolding init_controls_def
  by (intro keeps_all; simp add: blindD)

lemma first_run_total:
  assumes "reliable w" "script_exists cfg"
    "blind ventilation_list_update I" "blind toplights_list_update I"
    "blind heater_list_update I" "blind files_update I" "blind trace_update I"
  shows "total I
     (if script_exists cfg then
          then_do init_controls (\<lambda>_.
          (if online_measurements cfg then
             then_do (get_outdoor_measurements w) (\<lambda>_.
             run_matlab_script w (Some ''outdoor.mat'') None None)
           else run_matlab_script w None None None))
        else ret ())
     (\<lambda>_ s. I s \<and> good_env s)"
  apply (simp only: assms(2) if_True)
  apply (rule total_after [OF always_ok_init_controls keeps_init_controls [OF assms(3-7)]])
  apply (rule total_if)
   apply (rule total_after [OF always_ok_get_outdoor_measurements
                               keeps_get_outdoor_measurements [OF assms(6,7)]])
   apply (rule total_run_matlab_script [OF assms(1) keeps_run_matlab_script [OF assms(6,7)]])
  apply (rule total_run_matlab_script [OF assms(1) keeps_run_matlab_script [OF assms(6,7)]])
  done

lemma nn_closed:
  assumes "load_excel_data cfg a s = (Ok (), s1)"
    "nn_model w ''global in'' (step_data s1) = Ok p1"
    "nn_model w ''temp in'' (step_data s1) = Ok p2"
    "nn_model w ''rh in'' (step_data s1) = Ok p3"
    "nn_model w ''co2 in'' (step_data s1) = Ok p4"
  shows "predicted_inside_measurements_nn cfg w a s =
    (Ok (), append_nn
       \<lparr>par_in_predicted_nn = p1, temp_in_predicted_nn = p2,
        rh_in_predicted_nn = p3, co2_in_predicted_nn = p4\<rparr>
       (s1\<lparr>trace := trace s1 @ [Predict ''global in'', Predict ''temp in'',
                                  Predict ''rh in'', Predict ''co2 in'']\<rparr>))"
  unfolding predicted_inside_measurements_nn_def
  apply (subst then_do_Ok [of "load_excel_data cfg a" s, OF assms(1)])
  apply (simp add: then_do_def predict_inside_measurements_def log_def assms(2-5) ret_def)
  done

lemma reset_closed:
  "observation s = Ok obs \<Longrightarrow>
   reset s = (Ok (obs, []), s\<lparr>current_step := 0, season_length_nn := season_length_nn s + 4\<rparr>)"
  by (simp add: reset_def then_do_def ret_def reading_def observation_def)


lemma init_total:
  assumes R: "reliable w" and S: "script_exists cfg"
    and W: "season_length_nn0 cfg < length (mgh_data cfg)"
  shows "\<exists>s. init cfg w disk = (Ok (), s) \<and> ready s \<and>
           season_length_nn s = season_length_nn0 cfg + 4 \<and> current_step s = 0"
proof -
  let ?first = "if script_exists cfg then
          then_do init_controls (\<lambda>_.
          (if online_measurements cfg then
             then_do (get_outdoor_measurements w) (\<lambda>_.
             run_matlab_script w (Some ''outdoor.mat'') None None)
           else run_matlab_script w None None None))
        else ret ()"
  define I where "I = (\<lambda>s :: state. excel s = None \<and> nn s = None \<and> gl s = None \<and>
    season_length_nn s = season_length_nn0 cfg)"
  have I0: "I (fresh cfg disk)"
    by (simp add: I_def fresh_def)
  have B: "blind ventilation_list_update I" "blind toplights_list_update I"
    "blind heater_list_update I" "blind files_update I" "blind trace_update I"
    by (simp_all add: blind_def I_def)
  obtain x s1 where s1: "?first (fresh cfg disk) = (Ok x, s1)" "I s1" "good_env s1"
    using totalD [OF first_run_total [OF R S B] I0] by blast
  from s1(3) obtain m b where m: "map_of (files s1) ''drl-env.mat'' = Some m"
    "read_drl_env m = Ok b" "gl_nonempty b"
    unfolding good_env_def by blast
  define s2 where "s2 = append_gl b s1"
  have G: "predicted_inside_measurements_gl s1 = (Ok (), s2)"
    unfolding s2_def by (rule gl_closed [OF m(1,2)])
  have s2: "excel s2 = None" "nn s2 = None" "gl s2 = Some b"
    "season_length_nn s2 = season_length_nn0 cfg"
    using s1(2) by (simp_all add: s2_def append_gl_def I_def)
  let ?W = "take 4 (drop (season_length_nn0 cfg) (mgh_data cfg))"
  have N: "(if flag_action_from_drl cfg then None else None) = (None :: fl list option)"
    by simp
  obtain s3 where L: "load_excel_data cfg None s2 = (Ok (), s3)"
    and s3: "gl s3 = Some b" "nn s3 = None" "season_length_nn s3 = season_length_nn0 cfg"
      "\<exists>e. excel s3 = Some e \<and> ventilation e = map col_ventilation ?W \<and>
           toplights e = map col_toplights ?W \<and> heater e = map col_heater ?W"
    using load_excel_data_no_agent [OF N, of s2] s2
    by (simp add: append_excel_def)
  have M: "\<exists>ys. nn_model w t rows = Ok ys" for t rows
    using R unfolding reliable_def by blast
  obtain p1 where p1: "nn_model w ''global in'' (step_data s3) = Ok p1" using M by blast
  obtain p2 where p2: "nn_model w ''temp in'' (step_data s3) = Ok p2" using M by blast
  obtain p3 where p3: "nn_model w ''rh in'' (step_data s3) = Ok p3" using M by blast
  obtain p4 where p4: "nn_model w ''co2 in'' (step_data s3) = Ok p4" using M by blast
  define s4 where "s4 = append_nn
       \<lparr>par_in_predicted_nn = p1, temp_in_predicted_nn = p2,
        rh_in_predicted_nn = p3, co2_in_predicted_nn = p4\<rparr>
       (s3\<lparr>trace := trace s3 @ [Predict ''global in'', Predict ''temp in'',
                                  Predict ''rh in'', Predict ''co2 in'']\<rparr>)"
  have P: "predicted_inside_measurements_nn cfg w None s2 = (Ok (), s4)"
    unfolding s4_def by (rule nn_closed [OF L p1 p2 p3 p4])
  have s4: "gl s4 = Some b" "nn s4 \<noteq> None" "season_length_nn s4 = season_length_nn0 cfg"
    "excel s4 = excel s3"
    using s3 by (simp_all add: s4_def append_nn_def)
  have "?W \<noteq> []"
    using W by simp
  with s3(4) s4 m(3) have r4: "ready s4"
    by (auto simp add: ready_def)
  then obtain obs where obs: "observation s4 = Ok obs"
    using observation_ready by blast
  define s5 where "s5 = s4\<lparr>current_step := 0, season_length_nn := season_length_nn s4 + 4\<rparr>"
  have X: "reset s4 = (Ok (obs, []), s5)"
    unfolding s5_def by (rule reset_closed [OF obs])
  have "init cfg w disk = (Ok (), s5)"
    unfolding init_def start_up_def
    by (simp add: then_do_Ok [of ?first "fresh cfg disk", OF s1(1)]
          then_do_Ok [of predicted_inside_measurements_gl s1, OF G]
          then_do_Ok [of "predicted_inside_measurements_nn cfg w None" s2, OF P]
          then_do_Ok [of reset s4, OF X] ret_def)
  moreover have "ready s5" "season_length_nn s5 = season_length_nn0 cfg + 4" "current_step s5 = 0"
    using r4 s4(3) by (simp_all add: s5_def ready_def)
  ultimately show ?thesis
    by blast
qed

lemma read_drl_env_example: "read_drl_env example_sim = Ok example_gl"
  by (simp add: read_drl_env_def example_sim_def example_gl_def getitem_def rbind_def lastn_def)

lemma gl_nonempty_example: "gl_nonempty example_gl"
  by (simp add: gl_nonempty_def example_gl_def)

lemma reliable_example: "reliable example_world"
  unfolding reliable_def
  by (simp add: example_world_def read_drl_env_example gl_nonempty_example)

lemma step_ready:
  assumes "reliable w" "\<not> flag_action_from_drl cfg" "ready s"
  shows "\<exists>r. step cfg w a s = (Ok r, snd (step cfg w a s))" and "ready (snd (step cfg w a s))"
proof -
  have "\<exists>x s'. step cfg w a s = (Ok x, s') \<and> ready s'"
    using totalD [OF step_total [OF assms(1), of cfg a], of s] assms(2,3) by simp
  then show "\<exists>r. step cfg w a s = (Ok r, snd (step cfg w a s))" and "ready (snd (step cfg w a s))"
    by auto
qed

lemma ensures_weaken_post:
  "ensures P m Q' \<Longrightarrow> (\<And>x s. Q' x s \<Longrightarrow> Q x s) \<Longrightarrow> ensures P m Q"
  unfolding ensures_def by blast

lemma done_tail_value:
  "ensures (\<lambda>s. current_step s = c)
     (then_do (done_episode cfg w) (\<lambda>terminated. ret (obs, reward, terminated, False, [])))
     (\<lambda>r s. r = (obs, reward, max_steps cfg \<le> c, False, []))"
  apply (rule ensures_then_do [where R = "\<lambda>t s. t = (max_steps cfg \<le> c)"])
   apply (simp add: ensures_def)
   apply (metis done_episode_value)
  apply (rule ensures_ret)
  apply simp
  done

lemma step_terminated_ensures:
  "ensures (\<lambda>s. current_step s = c) (step cfg w a)
     (\<lambda>r s. fst (snd (snd r)) = (max_steps cfg \<le> c + 1) \<and> snd (snd (snd r)) = (False, []))"
  unfolding step_def
  apply (rule ensures_then_do [where R = "\<lambda>_ s. current_step s = c + 1"])
   apply (rule ensures_update, simp)
  apply ((rule ensures_weaken_post [OF done_tail_value] | rule ensures_case_prod
      | (rule ensures_after, (intro keeps_all; (simp add: blind_def; fail))[1]))+)
  apply simp
  done

section \<open>Reward\<close>



section \<open>Reset\<close>

text \<open>
  C6.  Every call of \<open>reset\<close> sets the epoch counter to 0 and moves the dataset cursor forward
  by 4 rows, so that the next window read is the one after the window at the old cursor; it
  returns the current observation paired with the empty info dict (or the exception that
  \<open>observation\<close> raises, the two updates being made all the same).
\<close>

theorem reset_effect:
  "current_step (snd (reset s)) = 0 \<and>
   season_length_nn (snd (reset s)) = season_length_nn s + 4 \<and>
   take 4 (drop (season_length_nn (snd (reset s))) (mgh_data cfg)) =
     take 4 (drop 4 (drop (season_length_nn s) (mgh_data cfg))) \<and>
   fst (reset s) =
     (case observation (snd (reset s)) of Ok obs \<Rightarrow> Ok (obs, []) | Raise e \<Rightarrow> Raise e)"
  by (simp add: reset_def then_do_def ret_def reading_def add.commute split: result.splits)

text \<open>
  C9.  \<open>reset\<close> changes the epoch counter and the dataset cursor and nothing else: the history
  buffers of the three sources, the reward list and the three control lists are the ones
  from before the call.
\<close>

theorem reset_frame:
  "snd (reset s) = s\<lparr>current_step := 0, season_length_nn := season_length_nn s + 4\<rparr> \<and>
   excel (snd (reset s)) = excel s \<and>
   nn (snd (reset s)) = nn s \<and>
   gl (snd (reset s)) = gl s \<and>
   rewards_list (snd (reset s)) = rewards_list s \<and>
   ventilation_list (snd (reset s)) = ventilation_list s \<and>
   toplights_list (snd (reset s)) = toplights_list s \<and>
   heater_list (snd (reset s)) = heater_list s"
  by (simp add: reset_def then_do_def ret_def reading_def split: result.splits)

section \<open>Actions\<close>



section \<open>Actions that are not checked\<close>




text \<open>
  C10.  Without an agent (\<open>flag_action_from_drl\<close> false) the action has no influence: from the
  same state, \<open>step\<close> returns the same outcome and leaves the same state for any two actions,
  \<open>None\<close> included; the control vector and what \<open>load_excel_data\<close> appends are the same too.
\<close>

theorem step_ignores_action:
  "\<not> flag_action_from_drl cfg \<Longrightarrow>
     step cfg w a1 s = step cfg w a2 s \<and>
     control_vector cfg a1 s = control_vector cfg a2 s \<and>
     load_excel_data cfg a1 s = load_excel_data cfg a2 s"
  using step_dataset [of cfg w a1] step_dataset [of cfg w a2]
    control_vector_dataset [of cfg a1] control_vector_dataset [of cfg a2]
    load_excel_data_dataset [of cfg a1] load_excel_data_dataset [of cfg a2]
  by simp

theorem step_ignores_action_witness:
  "\<not> flag_action_from_drl example_config \<and>
   step example_config example_world None example_state =
     step example_config example_world (Some [Fin (9 / 10), Fin 0, Fin 1]) example_state \<and>
   control_vector example_config None example_state =
     control_vector example_config (Some [Fin (9 / 10), Fin 0, Fin 1]) example_state"
  using step_ignores_action [of example_config example_world None example_state
          "Some [Fin (9 / 10), Fin 0, Fin 1]"]
  by (simp add: example_config_def)

end
